theory Spec2Isabelle
  imports Complex_Main
begin

section \<open>JavaScript values\<close>

text \<open>
  The application (App.js) receives JSON text frames and builds JSON objects to send.
  A JavaScript value is modelled as a tree; an object is an association list read with
  \<open>map_of\<close>. A number is an IEEE 754 double: \<open>JNum r\<close> is the finite double of
  value \<open>r\<close> (with \<open>JNum 0\<close> the positive zero), \<open>JNegZero\<close> is the negative zero
  and \<open>JInfinity neg\<close> an infinity; a JSON text can denote each of them. NaN is never
  part of a parsed tree; it appears among the results of arithmetic, in \<open>jsnum\<close>.
\<close>

datatype jsval =
    JUndef
  | JNull
  | JBool bool
  | JNum real
  | JNegZero
  | JInfinity bool
  | JStr string
  | JArr "jsval list"
  | JObj "(string \<times> jsval) list"

text \<open>
  The Number values that arithmetic works on: \<open>Fin r\<close> is the finite double of value
  \<open>r\<close> (\<open>Fin 0\<close> is +0), \<open>NegZero\<close> is -0, \<open>Infinity neg\<close> is the infinity of
  that sign.
\<close>

datatype jsnum = NaN | Fin real | NegZero | Infinity bool

datatype js_error = TypeError | SyntaxError

text \<open>ToBoolean: what \<open>!q\<close> and \<open>a || b\<close> test.\<close>

fun falsy :: "jsval \<Rightarrow> bool" where
  "falsy JUndef = True"
| "falsy JNull = True"
| "falsy (JBool b) = (b = False)"
| "falsy (JNum r) = (r = 0)"
| "falsy JNegZero = True"
| "falsy (JInfinity neg) = False"
| "falsy (JStr s) = (s = [])"
| "falsy (JArr xs) = False"
| "falsy (JObj kvs) = False"

text \<open>\<open>a || b\<close>\<close>

definition js_or :: "jsval \<Rightarrow> jsval \<Rightarrow> jsval" where
  "js_or a b = (if falsy a then b else a)"

text \<open>
  Reading a property \<open>v.k\<close> of a value that is neither null nor undefined. The names
  the code reads (op, topic, msg, level, percentage, pose, position, orientation, data,
  x, y, z, w) are own properties of objects only; on a number, a string, a boolean or an
  array they are undefined.
\<close>

fun get_prop :: "jsval \<Rightarrow> string \<Rightarrow> jsval" where
  "get_prop (JObj kvs) k = (case map_of kvs k of Some v \<Rightarrow> v | None \<Rightarrow> JUndef)"
| "get_prop v k = JUndef"

text \<open>\<open>v.k\<close> in general: a TypeError when \<open>v\<close> is null or undefined.\<close>

fun member :: "jsval \<Rightarrow> string \<Rightarrow> js_error + jsval" where
  "member JUndef k = Inl TypeError"
| "member JNull k = Inl TypeError"
| "member v k = Inr (get_prop v k)"

text \<open>Sequencing of steps that can throw: the first exception ends the sequence.\<close>

definition bind_err :: "js_error + 'a \<Rightarrow> ('a \<Rightarrow> js_error + 'b) \<Rightarrow> js_error + 'b" where
  "bind_err r f = (case r of Inl e \<Rightarrow> Inl e | Inr v \<Rightarrow> f v)"

section \<open>The platform\<close>

text \<open>
  What the JavaScript runtime supplies and the repository does not define is a
  parameter of the model:
  \<^item> the JSON parser (\<open>None\<close> is a thrown SyntaxError);
  \<^item> the number a string converts to;
  \<^item> the conversion of an array or object to a number and to a string, which calls
    the value's \<open>valueOf\<close> and \<open>toString\<close> and throws a TypeError when neither is
    callable, as for the parsed text \<open>{"toString":1,"valueOf":1}\<close>;
  \<^item> the text of a value other than a string or an object inside a template literal;
  \<^item> the printing of numbers of magnitude \<open>10^21\<close> and more;
  \<^item> the value of \<open>Math.atan2\<close> where ECMAScript leaves it to the implementation;
  \<^item> whether \<open>new WebSocket(url)\<close> throws (and with which message);
  \<^item> the clock and random source behind \<open>generateUniqueID\<close> (the text each yields
    at the n-th call).
\<close>

record platform =
  JSON_parse :: "string \<Rightarrow> jsval option"
  StringToNumber :: "string \<Rightarrow> jsnum"
  ObjectToNumber :: "jsval \<Rightarrow> js_error + jsnum"
  ObjectToString :: "jsval \<Rightarrow> js_error + string"
  ToString_value :: "jsval \<Rightarrow> string"
  Number_toString :: "real \<Rightarrow> string"
  Math_atan2_impl :: "jsnum \<Rightarrow> jsnum \<Rightarrow> jsnum"
  WebSocket_throws :: "string \<Rightarrow> string option"
  Date_now :: "nat \<Rightarrow> string"
  Math_random36 :: "nat \<Rightarrow> string"

text \<open>ToNumber, which the operators \<open>*\<close>, \<open>+\<close> and \<open>-\<close> apply to their operands.\<close>

fun ToNumber :: "platform \<Rightarrow> jsval \<Rightarrow> js_error + jsnum" where
  "ToNumber P JUndef = Inr NaN"
| "ToNumber P JNull = Inr (Fin 0)"
| "ToNumber P (JBool b) = Inr (Fin (if b then 1 else 0))"
| "ToNumber P (JNum r) = Inr (Fin r)"
| "ToNumber P JNegZero = Inr NegZero"
| "ToNumber P (JInfinity neg) = Inr (Infinity neg)"
| "ToNumber P (JStr s) = Inr (StringToNumber P s)"
| "ToNumber P v = ObjectToNumber P v"

text \<open>
  A field of one of the transport's own event objects inside a template literal
  (\<open>error.message\<close>, \<open>event.code\<close>): a string, a number or undefined, whose
  conversion cannot throw.
\<close>

fun ToString :: "platform \<Rightarrow> jsval \<Rightarrow> string" where
  "ToString P (JStr s) = s"
| "ToString P v = ToString_value P v"

text \<open>
  A value of a parsed frame inside a template literal: the conversion of an array or
  object can throw.
\<close>

fun ToString_parsed :: "platform \<Rightarrow> jsval \<Rightarrow> js_error + string" where
  "ToString_parsed P (JStr s) = Inr s"
| "ToString_parsed P (JArr xs) = ObjectToString P (JArr xs)"
| "ToString_parsed P (JObj kvs) = ObjectToString P (JObj kvs)"
| "ToString_parsed P v = Inr (ToString_value P v)"

section \<open>Double arithmetic\<close>

text \<open>
  Rounding to the nearest double, ties to even: a positive real \<open>x\<close> lies in the
  binade of exponent \<open>\<lfloor>log\<^sub>2 x\<rfloor>\<close> (not below -1022, where the subnormal numbers
  start), in which doubles are \<open>2^(e - 52)\<close> apart; a result of \<open>2^1024\<close> or more
  overflows to infinity, and a result of zero keeps the sign.
\<close>

definition round_half_even :: "real \<Rightarrow> int" where
  "round_half_even q =
     (if q - of_int \<lfloor>q\<rfloor> < 1 / 2 then \<lfloor>q\<rfloor>
      else if 1 / 2 < q - of_int \<lfloor>q\<rfloor> then \<lfloor>q\<rfloor> + 1
      else if even \<lfloor>q\<rfloor> then \<lfloor>q\<rfloor> else \<lfloor>q\<rfloor> + 1)"

definition double_exponent :: "real \<Rightarrow> int" where
  "double_exponent x = max \<lfloor>log 2 x\<rfloor> (- 1022)"

definition double_ulp :: "real \<Rightarrow> real" where
  "double_ulp x = 2 powr (of_int (double_exponent x) - 52)"

definition nearest_double :: "real \<Rightarrow> real" where
  "nearest_double x = of_int (round_half_even (x / double_ulp x)) * double_ulp x"

definition signed_zero :: "bool \<Rightarrow> jsnum" where
  "signed_zero neg = (if neg then NegZero else Fin 0)"

definition round_double :: "bool \<Rightarrow> real \<Rightarrow> jsnum" where
  "round_double neg x =
     (if 2 ^ 1024 \<le> nearest_double x then Infinity neg
      else if nearest_double x = 0 then signed_zero neg
      else Fin (if neg then - nearest_double x else nearest_double x))"

fun is_negative :: "jsnum \<Rightarrow> bool" where
  "is_negative (Fin r) = (r < 0)"
| "is_negative NegZero = True"
| "is_negative (Infinity neg) = neg"
| "is_negative NaN = False"

fun is_zero :: "jsnum \<Rightarrow> bool" where
  "is_zero (Fin r) = (r = 0)"
| "is_zero NegZero = True"
| "is_zero a = False"

fun magnitude :: "jsnum \<Rightarrow> real" where
  "magnitude (Fin r) = \<bar>r\<bar>"
| "magnitude a = 0"

fun real_value :: "jsnum \<Rightarrow> real" where
  "real_value (Fin r) = r"
| "real_value a = 0"

text \<open>\<open>a * b\<close> on Numbers.\<close>

fun jmul :: "jsnum \<Rightarrow> jsnum \<Rightarrow> jsnum" where
  "jmul NaN b = NaN"
| "jmul a NaN = NaN"
| "jmul (Infinity s) b = (if is_zero b then NaN else Infinity (s \<noteq> is_negative b))"
| "jmul a (Infinity s) = (if is_zero a then NaN else Infinity (is_negative a \<noteq> s))"
| "jmul a b =
     (if is_zero a \<or> is_zero b then signed_zero (is_negative a \<noteq> is_negative b)
      else round_double (is_negative a \<noteq> is_negative b) (magnitude a * magnitude b))"

text \<open>\<open>a + b\<close> on Numbers.\<close>

fun jadd :: "jsnum \<Rightarrow> jsnum \<Rightarrow> jsnum" where
  "jadd NaN b = NaN"
| "jadd a NaN = NaN"
| "jadd (Infinity s) (Infinity t) = (if s = t then Infinity s else NaN)"
| "jadd (Infinity s) b = Infinity s"
| "jadd a (Infinity t) = Infinity t"
| "jadd a b =
     (if is_zero a \<and> is_zero b then signed_zero (is_negative a \<and> is_negative b)
      else if real_value a + real_value b = 0 then Fin 0
      else round_double (real_value a + real_value b < 0) \<bar>real_value a + real_value b\<bar>)"

fun jneg :: "jsnum \<Rightarrow> jsnum" where
  "jneg NaN = NaN"
| "jneg (Fin r) = (if r = 0 then NegZero else Fin (- r))"
| "jneg NegZero = Fin 0"
| "jneg (Infinity s) = Infinity (s = False)"

text \<open>\<open>a - b\<close> on Numbers.\<close>

definition jsub :: "jsnum \<Rightarrow> jsnum \<Rightarrow> jsnum" where
  "jsub a b = jadd a (jneg b)"

text \<open>
  \<open>Math.atan2(y, x)\<close>, after ECMAScript: NaN for a NaN argument, a zero of the sign
  of \<open>y\<close> when \<open>y\<close> is a zero and \<open>x\<close> is positive or +0, or when \<open>y\<close> is finite
  and \<open>x\<close> is +\<infinity>; every other result is an approximation that the implementation
  chooses.
\<close>

fun positive_or_plus_zero :: "jsnum \<Rightarrow> bool" where
  "positive_or_plus_zero (Fin r) = (0 \<le> r)"
| "positive_or_plus_zero (Infinity neg) = (neg = False)"
| "positive_or_plus_zero a = False"

fun Math_atan2 :: "platform \<Rightarrow> jsnum \<Rightarrow> jsnum \<Rightarrow> jsnum" where
  "Math_atan2 P NaN x = NaN"
| "Math_atan2 P y NaN = NaN"
| "Math_atan2 P (Infinity s) x = Math_atan2_impl P (Infinity s) x"
| "Math_atan2 P NegZero x =
     (if positive_or_plus_zero x then NegZero else Math_atan2_impl P NegZero x)"
| "Math_atan2 P (Fin r) x =
     (if r = 0 then (if positive_or_plus_zero x then Fin 0 else Math_atan2_impl P (Fin r) x)
      else if x = Infinity False then signed_zero (r < 0)
      else Math_atan2_impl P (Fin r) x)"

text \<open>
  \<open>Number.prototype.toFixed(d)\<close>, after ECMAScript: a number that is not finite
  prints as its name; otherwise the sign, then the integer \<open>n\<close> nearest to
  \<open>|x| * 10^d\<close> (the larger one on a tie) printed in decimal, padded with zeros to
  \<open>d + 1\<close> digits, with a point before the last \<open>d\<close> digits.
\<close>

fun digits10 :: "nat \<Rightarrow> string" where
  "digits10 n =
     (if n < 10 then [''0123456789'' ! n]
      else digits10 (n div 10) @ [''0123456789'' ! (n mod 10)])"

declare digits10.simps [simp del]

definition fixed_point :: "nat \<Rightarrow> nat \<Rightarrow> string" where
  "fixed_point n d =
     (let m = digits10 n;
          m' = (if d \<noteq> 0 \<and> length m \<le> d then replicate (d + 1 - length m) (CHR ''0'') @ m else m)
      in if d \<noteq> 0 then take (length m' - d) m' @ ''.'' @ drop (length m' - d) m' else m')"

definition nearest :: "real \<Rightarrow> nat \<Rightarrow> nat" where
  "nearest x d = nat \<lfloor>\<bar>x\<bar> * 10 ^ d + 1 / 2\<rfloor>"

fun toFixed :: "platform \<Rightarrow> jsnum \<Rightarrow> nat \<Rightarrow> string" where
  "toFixed P NaN d = ''NaN''"
| "toFixed P (Infinity neg) d = (if neg then ''-Infinity'' else ''Infinity'')"
| "toFixed P NegZero d = fixed_point 0 d"
| "toFixed P (Fin x) d =
     (if x < 0 then ''-'' else '''') @
     (if 10 ^ 21 \<le> \<bar>x\<bar> then Number_toString P \<bar>x\<bar> else fixed_point (nearest x d) d)"

section \<open>Configuration and helpers of App.js\<close>

text \<open>
  \<open>ROS_CONFIG\<close>. The entries \<open>topics.odometry\<close> and \<open>messageTypes.odometry\<close> are
  commented out in the source, so reading them yields undefined.
\<close>

record ros_topics =
  cmdVel :: jsval
  batteryStatus :: jsval
  odometry_topic :: jsval
  robotStatus :: jsval

record ros_message_types =
  twist :: jsval
  batteryState :: jsval
  odometry_type :: jsval
  stringMsg :: jsval

definition ROS_CONFIG_topics :: ros_topics where
  "ROS_CONFIG_topics =
     \<lparr>cmdVel = JStr ''/cmd_vel'', batteryStatus = JStr ''/battery_status'',
      odometry_topic = JUndef, robotStatus = JStr ''/robot_status_app''\<rparr>"

definition ROS_CONFIG_messageTypes :: ros_message_types where
  "ROS_CONFIG_messageTypes =
     \<lparr>twist = JStr ''geometry_msgs/Twist'', batteryState = JStr ''sensor_msgs/BatteryState'',
      odometry_type = JUndef, stringMsg = JStr ''std_msgs/String''\<rparr>"

text \<open>\<open>generateUniqueID\<close>, at the n-th call.\<close>

definition generateUniqueID :: "platform \<Rightarrow> nat \<Rightarrow> string" where
  "generateUniqueID P n = ''op_'' @ Date_now P n @ ''_'' @ Math_random36 P n"

text \<open>
  \<open>quaternionToYaw\<close>. Each operand of \<open>*\<close> is converted with ToNumber, which can
  throw for an object; the arithmetic is that of doubles.
\<close>

definition quaternionToYaw :: "platform \<Rightarrow> jsval \<Rightarrow> js_error + jsnum" where
  "quaternionToYaw P q =
     (if falsy q \<or> get_prop q ''w'' = JUndef \<or> get_prop q ''x'' = JUndef
         \<or> get_prop q ''y'' = JUndef \<or> get_prop q ''z'' = JUndef
      then Inr (Fin 0)
      else
        bind_err (ToNumber P (get_prop q ''w'')) (\<lambda>w.
        bind_err (ToNumber P (get_prop q ''z'')) (\<lambda>z.
        bind_err (ToNumber P (get_prop q ''x'')) (\<lambda>x.
        bind_err (ToNumber P (get_prop q ''y'')) (\<lambda>y.
          Inr (Math_atan2 P
                 (jmul (Fin 2) (jadd (jmul w z) (jmul x y)))
                 (jsub (Fin 1) (jmul (Fin 2) (jadd (jmul y y) (jmul z z))))))))))"

text \<open>
  The yaw formula as the specification words it,
  \<open>atan2(2(wz + xy), 1 - 2(y\<^sup>2 + z\<^sup>2))\<close>, on Numbers.
\<close>

definition yaw_formula :: "platform \<Rightarrow> jsnum \<Rightarrow> jsnum \<Rightarrow> jsnum \<Rightarrow> jsnum \<Rightarrow> jsnum" where
  "yaw_formula P x y z w =
     Math_atan2 P (jmul (Fin 2) (jadd (jmul w z) (jmul x y)))
       (jsub (Fin 1) (jmul (Fin 2) (jadd (jmul y y) (jmul z z))))"

text \<open>
  \<open>JSON.stringify\<close> of an object literal, as the tree that the text encodes: a
  property whose value is undefined is left out, an undefined array element becomes
  null, an infinity becomes null and the negative zero prints as 0.
\<close>

fun JSON_stringify :: "jsval \<Rightarrow> jsval"
  and stringify_props :: "(string \<times> jsval) list \<Rightarrow> (string \<times> jsval) list"
  and stringify_elems :: "jsval list \<Rightarrow> jsval list" where
  "JSON_stringify (JObj kvs) = JObj (stringify_props kvs)"
| "JSON_stringify (JArr xs) = JArr (stringify_elems xs)"
| "JSON_stringify (JInfinity neg) = JNull"
| "JSON_stringify JNegZero = JNum 0"
| "JSON_stringify v = v"
| "stringify_props [] = []"
| "stringify_props ((k, v) # kvs) =
     (if v = JUndef then stringify_props kvs else (k, JSON_stringify v) # stringify_props kvs)"
| "stringify_elems [] = []"
| "stringify_elems (v # vs) =
     (if v = JUndef then JNull else JSON_stringify v) # stringify_elems vs"

section \<open>The state of the App component\<close>

text \<open>
  The React state variables, the \<open>ws\<close> ref and the sockets the component has created.
  A socket is named by its index in \<open>sockets\<close>; \<open>sent\<close> lists the frames given to
  its \<open>send\<close>, oldest first. \<open>ids_made\<close> counts the calls of \<open>generateUniqueID\<close>
  and \<open>alerts\<close> lists the calls of \<open>Alert.alert\<close>. A state setter is an assignment:
  no handler reads a state variable after setting it. Console output is left out.
\<close>

datatype ready_state = CONNECTING | OPEN | CLOSING | CLOSED

record websocket =
  ws_url :: string
  readyState :: ready_state
  sent :: "jsval list"

record pose =
  pose_x :: jsval
  pose_y :: jsval
  pose_theta :: jsval

record app =
  rosbridgeUrl :: string
  isConnected :: bool
  connectionStatus :: string
  lastError :: "string option"
  batteryPercentage :: jsval
  odometry :: pose
  robotStatusText :: jsval
  ws_current :: "nat option"
  sockets :: "websocket list"
  ids_made :: nat
  alerts :: "(string \<times> string) list"

definition zero_pose :: pose where
  "zero_pose = \<lparr>pose_x = JNum 0, pose_y = JNum 0, pose_theta = JNum 0\<rparr>"

text \<open>The state after the first render.\<close>

definition initial_app :: app where
  "initial_app =
     \<lparr>rosbridgeUrl = ''ws://192.168.1.100:9090'', isConnected = False,
      connectionStatus = ''Disconnected'', lastError = None,
      batteryPercentage = JNull, odometry = zero_pose, robotStatusText = JStr ''N/A'',
      ws_current = None, sockets = [], ids_made = 0, alerts = []\<rparr>"

text \<open>
  \<open>ws.current && ws.current.readyState === WebSocket.OPEN\<close>: the socket the ref
  holds, when it is open. The ref only ever holds a socket that \<open>connectToRosbridge\<close>
  has created; the bound keeps the definition from reading \<open>sockets\<close> out of range
  without assuming that.
\<close>

definition open_socket :: "app \<Rightarrow> nat option" where
  "open_socket s =
     (case ws_current s of
        None \<Rightarrow> None
      | Some i \<Rightarrow>
          if i < length (sockets s) \<and> readyState (sockets s ! i) = OPEN then Some i else None)"

text \<open>\<open>socket.send(frame)\<close>, called by the code on an open socket only.\<close>

definition ws_send :: "nat \<Rightarrow> jsval \<Rightarrow> app \<Rightarrow> app" where
  "ws_send i frame s =
     s\<lparr>sockets := (sockets s)[i := (sockets s ! i)\<lparr>sent := sent (sockets s ! i) @ [frame]\<rparr>]\<rparr>"

text \<open>\<open>socket.close()\<close>: a connecting or open socket starts closing.\<close>

definition ws_close :: "nat \<Rightarrow> app \<Rightarrow> app" where
  "ws_close i s =
     s\<lparr>sockets := (sockets s)[i := (sockets s ! i)\<lparr>readyState :=
         (if readyState (sockets s ! i) = CLOSED then CLOSED else CLOSING)\<rparr>]\<rparr>"

section \<open>Subscribing and publishing\<close>

text \<open>
  None of these functions can throw: they read the ref, build an object literal from
  their arguments and call \<open>send\<close> on an open socket; the topic names that the call
  sites pass are strings or undefined, which the log line's template literal converts
  without an exception. So each is a function from state to state, with no error
  result.
\<close>

definition subscribeToTopic :: "platform \<Rightarrow> jsval \<Rightarrow> jsval \<Rightarrow> jsval \<Rightarrow> app \<Rightarrow> app" where
  "subscribeToTopic P topicName messageType throttleRate s =
     (case open_socket s of
        Some i \<Rightarrow>
          let subscribeMsg = JObj
                [(''op'', JStr ''subscribe''),
                 (''id'', JStr (generateUniqueID P (ids_made s))),
                 (''topic'', topicName),
                 (''type'', messageType),
                 (''throttle_rate'', if throttleRate = JUndef then JNum 200 else throttleRate)]
          in ws_send i (JSON_stringify subscribeMsg) (s\<lparr>ids_made := Suc (ids_made s)\<rparr>)
      | None \<Rightarrow> s)"

definition unsubscribeFromTopic :: "platform \<Rightarrow> jsval \<Rightarrow> app \<Rightarrow> app" where
  "unsubscribeFromTopic P topicName s =
     (case open_socket s of
        Some i \<Rightarrow>
          let unsubscribeMsg = JObj
                [(''op'', JStr ''unsubscribe''),
                 (''id'', JStr (generateUniqueID P (ids_made s))),
                 (''topic'', topicName)]
          in ws_send i (JSON_stringify unsubscribeMsg) (s\<lparr>ids_made := Suc (ids_made s)\<rparr>)
      | None \<Rightarrow> s)"

text \<open>The three calls pass no throttle rate, so the default applies.\<close>

definition subscribeToTopics :: "platform \<Rightarrow> app \<Rightarrow> app" where
  "subscribeToTopics P s =
     (let s1 = subscribeToTopic P (batteryStatus ROS_CONFIG_topics)
                 (batteryState ROS_CONFIG_messageTypes) JUndef s;
          s2 = subscribeToTopic P (odometry_topic ROS_CONFIG_topics)
                 (odometry_type ROS_CONFIG_messageTypes) JUndef s1
      in subscribeToTopic P (robotStatus ROS_CONFIG_topics)
           (stringMsg ROS_CONFIG_messageTypes) JUndef s2)"

definition publishMessage :: "platform \<Rightarrow> jsval \<Rightarrow> jsval \<Rightarrow> jsval \<Rightarrow> app \<Rightarrow> app" where
  "publishMessage P topicName messageType messagePayload s =
     (case open_socket s of
        Some i \<Rightarrow>
          let publishMsg = JObj
                [(''op'', JStr ''publish''),
                 (''id'', JStr (generateUniqueID P (ids_made s))),
                 (''topic'', topicName),
                 (''msg'', messagePayload),
                 (''type'', messageType)]
          in ws_send i (JSON_stringify publishMsg) (s\<lparr>ids_made := Suc (ids_made s)\<rparr>)
      | None \<Rightarrow> s\<lparr>lastError := Some ''Cannot send command: Not connected.''\<rparr>)"

definition twistMsg :: "real \<Rightarrow> real \<Rightarrow> jsval" where
  "twistMsg linearX angularZ =
     JObj [(''linear'', JObj [(''x'', JNum linearX), (''y'', JNum 0), (''z'', JNum 0)]),
           (''angular'', JObj [(''x'', JNum 0), (''y'', JNum 0), (''z'', JNum angularZ)])]"

definition sendTwistCommand :: "platform \<Rightarrow> real \<Rightarrow> real \<Rightarrow> app \<Rightarrow> app" where
  "sendTwistCommand P linearX angularZ s =
     publishMessage P (cmdVel ROS_CONFIG_topics) (twist ROS_CONFIG_messageTypes)
       (twistMsg linearX angularZ) s"

definition handleEmergencyStop :: "platform \<Rightarrow> app \<Rightarrow> app" where
  "handleEmergencyStop P s =
     (let s1 = sendTwistCommand P 0 0 s
      in s1\<lparr>alerts := alerts s1 @ [(''Emergency Stop'', ''Robot motion stopped!'')]\<rparr>)"

section \<open>Connecting and disconnecting\<close>

text \<open>
  \<open>connectToRosbridge\<close>. A new socket starts in state CONNECTING and the ref is set
  to it; when the constructor throws, the ref keeps what it held.
\<close>

definition connectToRosbridge :: "platform \<Rightarrow> app \<Rightarrow> app" where
  "connectToRosbridge P s =
     (case open_socket s of
        Some i \<Rightarrow> s\<lparr>connectionStatus := ''Already connected.''\<rparr>
      | None \<Rightarrow>
          let s1 = s\<lparr>connectionStatus := ''Connecting to '' @ rosbridgeUrl s @ ''...'',
                     lastError := None\<rparr>
          in (case WebSocket_throws P (rosbridgeUrl s) of
                None \<Rightarrow>
                  s1\<lparr>ws_current := Some (length (sockets s1)),
                     sockets := sockets s1 @
                       [\<lparr>ws_url = rosbridgeUrl s, readyState = CONNECTING, sent = []\<rparr>]\<rparr>
              | Some msg \<Rightarrow>
                  s1\<lparr>connectionStatus := ''Failed to connect: '' @ msg,
                     lastError := Some (''Connection Init Error: '' @ msg)\<rparr>))"

definition disconnectFromRosbridge :: "app \<Rightarrow> app" where
  "disconnectFromRosbridge s =
     (let s1 = (case ws_current s of Some i \<Rightarrow> ws_close i s | None \<Rightarrow> s)
      in s1\<lparr>isConnected := False, connectionStatus := ''Disconnected'',
            batteryPercentage := JNull, odometry := zero_pose,
            robotStatusText := JStr ''N/A''\<rparr>)"

section \<open>The socket's handlers\<close>

text \<open>
  Every socket that \<open>connectToRosbridge\<close> creates gets the same four handlers. None
  of them refers to the socket it is attached to: each works on the ref.
\<close>

definition onopen :: "platform \<Rightarrow> app \<Rightarrow> app" where
  "onopen P s =
     subscribeToTopics P
       (s\<lparr>isConnected := True, connectionStatus := ''Connected to ROS Master via rosbridge''\<rparr>)"

text \<open>\<open>v.toFixed(d)\<close>: only a number has the method.\<close>

fun call_toFixed :: "platform \<Rightarrow> jsval \<Rightarrow> nat \<Rightarrow> js_error + string" where
  "call_toFixed P (JNum r) d = Inr (toFixed P (Fin r) d)"
| "call_toFixed P JNegZero d = Inr (toFixed P NegZero d)"
| "call_toFixed P (JInfinity neg) d = Inr (toFixed P (Infinity neg) d)"
| "call_toFixed P v d = Inl TypeError"

text \<open>
  The body of the \<open>try\<close> block of \<open>onmessage\<close>: \<open>Inl\<close> is the exception that
  reaches the \<open>catch\<close>. Each branch sets state as its last action, so an exception
  leaves the state as it was. \<open>===\<close> against a string or undefined is equality of
  values. In the status branch the template literal of \<open>console.error\<close> converts
  \<open>message.id\<close> and \<open>message.msg\<close> to strings before the last error is set.
\<close>

definition process_message :: "platform \<Rightarrow> string \<Rightarrow> app \<Rightarrow> js_error + app" where
  "process_message P data s =
     (case JSON_parse P data of
        None \<Rightarrow> Inl SyntaxError
      | Some message \<Rightarrow>
          bind_err (member message ''op'') (\<lambda>op.
            if op = JStr ''publish'' then
              (if get_prop message ''topic'' = batteryStatus ROS_CONFIG_topics then
                 bind_err (member message ''msg'') (\<lambda>msg.
                 bind_err (member msg ''percentage'') (\<lambda>percentage.
                   if percentage \<noteq> JUndef
                   then bind_err (ToNumber P percentage) (\<lambda>p.
                          Inr (s\<lparr>batteryPercentage := JStr (toFixed P (jmul p (Fin 100)) 1)\<rparr>))
                   else Inr (s\<lparr>batteryPercentage := JStr ''N/A''\<rparr>)))
               else if get_prop message ''topic'' = odometry_topic ROS_CONFIG_topics then
                 bind_err (member message ''msg'') (\<lambda>msg.
                 bind_err (member msg ''pose'') (\<lambda>pose1.
                 bind_err (member pose1 ''pose'') (\<lambda>pose2.
                 bind_err (member pose2 ''position'') (\<lambda>position.
                 bind_err (member position ''x'') (\<lambda>x.
                 bind_err (call_toFixed P x 2) (\<lambda>xs.
                 bind_err (member position ''y'') (\<lambda>y.
                 bind_err (call_toFixed P y 2) (\<lambda>ys.
                 bind_err (quaternionToYaw P (get_prop pose2 ''orientation'')) (\<lambda>yaw.
                   Inr (s\<lparr>odometry :=
                          \<lparr>pose_x = JStr xs, pose_y = JStr ys,
                           pose_theta = JStr (toFixed P yaw 2)\<rparr>\<rparr>))))))))))
               else if get_prop message ''topic'' = robotStatus ROS_CONFIG_topics then
                 bind_err (member message ''msg'') (\<lambda>msg.
                 bind_err (member msg ''data'') (\<lambda>d.
                   Inr (s\<lparr>robotStatusText := js_or d (JStr ''N/A'')\<rparr>)))
               else Inr s)
            else if op = JStr ''status'' then
              (if get_prop message ''level'' = JStr ''error''
                  \<or> get_prop message ''level'' = JStr ''warning''
               then bind_err (ToString_parsed P (get_prop message ''id'')) (\<lambda>ident.
                    bind_err (ToString_parsed P (get_prop message ''msg'')) (\<lambda>text_msg.
                      Inr (s\<lparr>lastError := Some (''ROS Bridge Error: '' @ text_msg)\<rparr>)))
               else Inr s)
            else Inr s))"

definition onmessage :: "platform \<Rightarrow> string \<Rightarrow> app \<Rightarrow> app" where
  "onmessage P data s =
     (case process_message P data s of
        Inl e \<Rightarrow> s\<lparr>lastError := Some ''Error processing message from ROS.''\<rparr>
      | Inr s' \<Rightarrow> s')"

definition onerror :: "platform \<Rightarrow> jsval \<Rightarrow> app \<Rightarrow> app" where
  "onerror P error s =
     s\<lparr>isConnected := False,
       connectionStatus := ''Connection Error: '' @
         ToString P (js_or (get_prop error ''message'') (JStr ''Unknown error'')),
       lastError := Some (''WebSocket Error: '' @
         ToString P (js_or (get_prop error ''message'') (JStr ''Check console'')))\<rparr>"

definition onclose :: "platform \<Rightarrow> jsval \<Rightarrow> app \<Rightarrow> app" where
  "onclose P event s =
     s\<lparr>isConnected := False,
       connectionStatus := ''Disconnected ('' @
         ToString P (js_or (get_prop event ''code'') (JStr ''N/A'')) @ '')'',
       ws_current := None\<rparr>"

text \<open>
  An event of socket \<open>i\<close>, as the transport delivers it: the transport sets the
  socket's \<open>readyState\<close> (to OPEN before an open event, to CLOSED before a close
  event) and then calls the handler.
\<close>

datatype ws_event = OpenEv | MessageEv string | ErrorEv jsval | CloseEv jsval

definition set_readyState :: "nat \<Rightarrow> ready_state \<Rightarrow> app \<Rightarrow> app" where
  "set_readyState i r s = s\<lparr>sockets := (sockets s)[i := (sockets s ! i)\<lparr>readyState := r\<rparr>]\<rparr>"

fun fire :: "platform \<Rightarrow> nat \<Rightarrow> ws_event \<Rightarrow> app \<Rightarrow> app" where
  "fire P i OpenEv s = onopen P (set_readyState i OPEN s)"
| "fire P i (MessageEv data) s = onmessage P data s"
| "fire P i (ErrorEv error) s = onerror P error s"
| "fire P i (CloseEv event) s = onclose P event (set_readyState i CLOSED s)"

section \<open>What the screen shows for the battery\<close>

text \<open>
  The status view prints the battery as
  \<open>batteryPercentage !== null ? `${batteryPercentage}%` : 'N/A'\<close>: null is the value
  it treats as unknown. The state variable holds null or a string.
\<close>

definition battery_label :: "platform \<Rightarrow> jsval \<Rightarrow> string" where
  "battery_label P b = (if b \<noteq> JNull then ToString P b @ ''%'' else ''N/A'')"

section \<open>Sample frames and a sample platform\<close>

text \<open>
  Concrete inputs for the instances below: three frame texts with the trees a JSON parser
  gives for them (the number 0.755 parses to the nearest double,
  \<open>6800435437329449 / 2^53\<close>), and a platform whose parser knows exactly these texts
  (any other text is a syntax error), whose socket constructor never throws and whose
  clock and random source yield fixed texts.
\<close>

definition battery_text :: string where
  \<open>battery_text = ''{"op":"publish","topic":"/battery_status","msg":{"percentage":0.755}}''\<close>

definition battery_tree :: jsval where
  "battery_tree =
     JObj [(''op'', JStr ''publish''), (''topic'', JStr ''/battery_status''),
           (''msg'', JObj [(''percentage'', JNum (6800435437329449 / 2 ^ 53))])]"

definition battery_empty_text :: string where
  \<open>battery_empty_text = ''{"op":"publish","topic":"/battery_status","msg":{}}''\<close>

definition battery_empty_tree :: jsval where
  "battery_empty_tree =
     JObj [(''op'', JStr ''publish''), (''topic'', JStr ''/battery_status''),
           (''msg'', JObj [])]"

definition odom_text :: string where
  \<open>odom_text = ''{"op":"publish","topic":"/odom","msg":{}}''\<close>

definition odom_tree :: jsval where
  "odom_tree =
     JObj [(''op'', JStr ''publish''), (''topic'', JStr ''/odom''), (''msg'', JObj [])]"

definition sample_parse :: "string \<Rightarrow> jsval option" where
  "sample_parse =
     map_of [(battery_text, battery_tree), (battery_empty_text, battery_empty_tree),
             (odom_text, odom_tree)]"

definition sample_platform :: platform where
  "sample_platform =
     \<lparr>JSON_parse = sample_parse,
      StringToNumber = (\<lambda>v. NaN),
      ObjectToNumber = (\<lambda>v. Inl TypeError),
      ObjectToString = (\<lambda>v. Inl TypeError),
      ToString_value = (\<lambda>v. ''undefined''),
      Number_toString = (\<lambda>r. ''1e+21''),
      Math_atan2_impl = (\<lambda>y x. NaN),
      WebSocket_throws = (\<lambda>u. None),
      Date_now = (\<lambda>n. ''1700000000000''),
      Math_random36 = (\<lambda>n. ''k'' @ digits10 n)\<rparr>"

text \<open>The state once a first connection has opened.\<close>

definition connected_app :: app where
  "connected_app = fire sample_platform 0 OpenEv (connectToRosbridge sample_platform initial_app)"

text \<open>
  The state after a second connect that came while the first socket was still
  connecting, once the second socket has opened: the ref holds socket 1, and socket 0,
  never closed, is superseded.
\<close>

definition superseded_app :: app where
  "superseded_app =
     fire sample_platform 1 OpenEv
       (connectToRosbridge sample_platform (connectToRosbridge sample_platform initial_app))"

text \<open>
  The velocity frame as the specification words it:
  \<open>{op:"publish", id, topic:"/cmd_vel", msg:{linear:{x:l,y:0,z:0}, angular:{x:0,y:0,z:a}},
  type:"geometry_msgs/Twist"}\<close>.
\<close>

definition expected_twist_frame :: "string \<Rightarrow> real \<Rightarrow> real \<Rightarrow> jsval" where
  "expected_twist_frame ident l a =
     JObj [(''op'', JStr ''publish''), (''id'', JStr ident), (''topic'', JStr ''/cmd_vel''),
           (''msg'', JObj [(''linear'', JObj [(''x'', JNum l), (''y'', JNum 0), (''z'', JNum 0)]),
                           (''angular'', JObj [(''x'', JNum 0), (''y'', JNum 0), (''z'', JNum a)])]),
           (''type'', JStr ''geometry_msgs/Twist'')]"

section \<open>Double arithmetic at particular numbers\<close>

lemma double_exponent_eq:
  assumes "2 ^ n \<le> x" and "x < 2 ^ Suc n"
  shows "double_exponent x = int n"
proof -
  have x0: "0 < x"
    using assms(1) by (rule less_le_trans [rotated]) simp
  have "\<lfloor>log 2 x\<rfloor> = int n"
    using assms x0
    by (subst floor_log_eq_powr_iff) (simp_all add: powr_realpow powr_add)
  then show ?thesis
    by (simp add: double_exponent_def)
qed

lemma double_ulp_eq:
  assumes "2 ^ n \<le> x" and "x < 2 ^ Suc n" and "n \<le> 52"
  shows "double_ulp x = 1 / 2 ^ (52 - n)"
proof -
  have "double_ulp x = 2 powr (real n - 52)"
    by (simp add: double_ulp_def double_exponent_eq [OF assms(1,2)])
  also have "\<dots> = 2 powr (- real (52 - n))"
    using assms(3) by (simp add: of_nat_diff)
  also have "\<dots> = 1 / 2 ^ (52 - n)"
    by (simp add: powr_minus powr_realpow inverse_eq_divide)
  finally show ?thesis .
qed

lemma nearest_double_eq:
  assumes "2 ^ n \<le> x" and "x < 2 ^ Suc n" and "n \<le> 52"
  shows "nearest_double x = of_int (round_half_even (x * 2 ^ (52 - n))) / 2 ^ (52 - n)"
  by (simp add: nearest_double_def double_ulp_eq [OF assms])

lemma nearest_double_one: "nearest_double 1 = 1"
  using nearest_double_eq [of 0 1] by (simp add: round_half_even_def)

lemma jsub_one_zero: "jsub (Fin 1) (Fin 0) = Fin 1"
  by (simp add: jsub_def round_double_def nearest_double_one)

lemma product_755: "jmul (Fin (6800435437329449 / 2 ^ 53)) (Fin 100) = Fin (151 / 2)"
proof -
  have "nearest_double (6800435437329449 / 2 ^ 53 * 100) = 151 / 2"
    using nearest_double_eq [of 6 "6800435437329449 / 2 ^ 53 * 100"]
    by (simp add: round_half_even_def)
  then show ?thesis
    by (simp add: round_double_def)
qed

lemma product_5815:
  "jmul (Fin (5237686366631887 / 2 ^ 53)) (Fin 100) = Fin (8183884947862323 / 2 ^ 47)"
proof -
  have "nearest_double (5237686366631887 / 2 ^ 53 * 100) = 8183884947862323 / 2 ^ 47"
    using nearest_double_eq [of 5 "5237686366631887 / 2 ^ 53 * 100"]
    by (simp add: round_half_even_def)
  then show ?thesis
    by (simp add: round_double_def)
qed

lemma toFixed_755: "toFixed P (Fin (151 / 2)) 1 = ''75.5''"
  by (simp add: nearest_def fixed_point_def digits10.simps)

lemma toFixed_5815: "toFixed P (Fin (8183884947862323 / 2 ^ 47)) 1 = ''58.1''"
  by (simp add: nearest_def fixed_point_def digits10.simps)

section \<open>The yaw decoder\<close>

lemma get_prop_defined: "get_prop q k \<noteq> JUndef \<Longrightarrow> falsy q = False"
  by (cases q) simp_all

text \<open>
  Claim C3, with the arithmetic of the code, that of doubles. For a quaternion whose
  four fields are defined, \<open>quaternionToYaw\<close> returns
  \<open>atan2(2(wz + xy), 1 - 2(y\<^sup>2 + z\<^sup>2))\<close> of the Numbers its fields convert to, each
  product, sum and difference rounded as a double (and it throws when a field is an
  object whose conversion throws, as evaluating the formula would); in particular so
  for fields that are numbers. For the identity quaternion it returns 0. For an input
  that is null, undefined (or falsy in any other way) or that lacks one of the four
  fields it returns 0.
\<close>

theorem quaternionToYaw_formula:
  "(get_prop q ''x'' \<noteq> JUndef \<and> get_prop q ''y'' \<noteq> JUndef \<and> get_prop q ''z'' \<noteq> JUndef
      \<and> get_prop q ''w'' \<noteq> JUndef
    \<longrightarrow> (ToNumber P (get_prop q ''x'') = Inr x \<and> ToNumber P (get_prop q ''y'') = Inr y
          \<and> ToNumber P (get_prop q ''z'') = Inr z \<and> ToNumber P (get_prop q ''w'') = Inr w
         \<longrightarrow> quaternionToYaw P q = Inr (yaw_formula P x y z w))
       \<and> (ToNumber P (get_prop q ''x'') = Inl e \<or> ToNumber P (get_prop q ''y'') = Inl e
          \<or> ToNumber P (get_prop q ''z'') = Inl e \<or> ToNumber P (get_prop q ''w'') = Inl e
         \<longrightarrow> (\<exists>e'. quaternionToYaw P q = Inl e')))
   \<and> (get_prop q ''x'' = JNum a \<and> get_prop q ''y'' = JNum b \<and> get_prop q ''z'' = JNum c
      \<and> get_prop q ''w'' = JNum d
    \<longrightarrow> quaternionToYaw P q = Inr (yaw_formula P (Fin a) (Fin b) (Fin c) (Fin d)))
   \<and> quaternionToYaw P
        (JObj [(''x'', JNum 0), (''y'', JNum 0), (''z'', JNum 0), (''w'', JNum 1)]) = Inr (Fin 0)
   \<and> (falsy q \<or> get_prop q ''x'' = JUndef \<or> get_prop q ''y'' = JUndef
        \<or> get_prop q ''z'' = JUndef \<or> get_prop q ''w'' = JUndef
      \<longrightarrow> quaternionToYaw P q = Inr (Fin 0))"
proof (intro conjI impI)
  assume d: "get_prop q ''x'' \<noteq> JUndef \<and> get_prop q ''y'' \<noteq> JUndef \<and> get_prop q ''z'' \<noteq> JUndef
      \<and> get_prop q ''w'' \<noteq> JUndef"
  then have f: "falsy q = False"
    using get_prop_defined [of q "''x''"] by simp
  {
    assume "ToNumber P (get_prop q ''x'') = Inr x \<and> ToNumber P (get_prop q ''y'') = Inr y
          \<and> ToNumber P (get_prop q ''z'') = Inr z \<and> ToNumber P (get_prop q ''w'') = Inr w"
    with d f show "quaternionToYaw P q = Inr (yaw_formula P x y z w)"
      by (simp add: quaternionToYaw_def yaw_formula_def bind_err_def)
  }
  {
    assume "ToNumber P (get_prop q ''x'') = Inl e \<or> ToNumber P (get_prop q ''y'') = Inl e
          \<or> ToNumber P (get_prop q ''z'') = Inl e \<or> ToNumber P (get_prop q ''w'') = Inl e"
    with d f show "\<exists>e'. quaternionToYaw P q = Inl e'"
      by (auto simp add: quaternionToYaw_def bind_err_def split: sum.splits)
  }
next
  assume n: "get_prop q ''x'' = JNum a \<and> get_prop q ''y'' = JNum b \<and> get_prop q ''z'' = JNum c
      \<and> get_prop q ''w'' = JNum d"
  then have "falsy q = False"
    using get_prop_defined [of q "''x''"] by simp
  with n show "quaternionToYaw P q = Inr (yaw_formula P (Fin a) (Fin b) (Fin c) (Fin d))"
    by (simp add: quaternionToYaw_def yaw_formula_def bind_err_def del: jmul.simps jadd.simps Math_atan2.simps)
next
  show "quaternionToYaw P
        (JObj [(''x'', JNum 0), (''y'', JNum 0), (''z'', JNum 0), (''w'', JNum 1)]) = Inr (Fin 0)"
    by (simp add: quaternionToYaw_def bind_err_def signed_zero_def jsub_one_zero)
next
  assume "falsy q \<or> get_prop q ''x'' = JUndef \<or> get_prop q ''y'' = JUndef
        \<or> get_prop q ''z'' = JUndef \<or> get_prop q ''w'' = JUndef"
  then show "quaternionToYaw P q = Inr (Fin 0)"
    by (auto simp add: quaternionToYaw_def)
qed

theorem quaternionToYaw_formula_witness:
  "quaternionToYaw sample_platform
     (JObj [(''x'', JNum 0), (''y'', JNum 0), (''z'', JNum 1), (''w'', JNum 0)])
     = Inr (yaw_formula sample_platform (Fin 0) (Fin 0) (Fin 1) (Fin 0))
   \<and> quaternionToYaw sample_platform
     (JObj [(''x'', JNum 0), (''y'', JNull), (''z'', JNegZero), (''w'', JBool True)])
     = Inr (yaw_formula sample_platform (Fin 0) (Fin 0) NegZero (Fin 1))
   \<and> (\<exists>e'. quaternionToYaw sample_platform
     (JObj [(''x'', JNum 0), (''y'', JObj []), (''z'', JNum 0), (''w'', JNum 1)]) = Inl e')
   \<and> quaternionToYaw sample_platform JNull = Inr (Fin 0)
   \<and> quaternionToYaw sample_platform (JObj [(''x'', JNum 0), (''y'', JNum 0)]) = Inr (Fin 0)"
  using quaternionToYaw_formula [where P = sample_platform and a = 0 and b = 0 and c = 1 and d = 0
      and q = "JObj [(''x'', JNum 0), (''y'', JNum 0), (''z'', JNum 1), (''w'', JNum 0)]"]
    quaternionToYaw_formula [where P = sample_platform
      and x = "Fin 0" and y = "Fin 0" and z = NegZero and w = "Fin 1"
      and q = "JObj [(''x'', JNum 0), (''y'', JNull), (''z'', JNegZero), (''w'', JBool True)]"]
    quaternionToYaw_formula [where P = sample_platform and e = TypeError
      and q = "JObj [(''x'', JNum 0), (''y'', JObj []), (''z'', JNum 0), (''w'', JNum 1)]"]
    quaternionToYaw_formula [where P = sample_platform and q = JNull]
    quaternionToYaw_formula [where P = sample_platform
      and q = "JObj [(''x'', JNum 0), (''y'', JNum 0)]"]
  by (simp add: sample_platform_def)

section \<open>Inbound battery frames\<close>

lemma process_battery:
  assumes "JSON_parse P data = Some message"
    and "get_prop message ''op'' = JStr ''publish''"
    and "get_prop message ''topic'' = JStr ''/battery_status''"
    and "get_prop message ''msg'' \<noteq> JUndef" and "get_prop message ''msg'' \<noteq> JNull"
  shows "process_message P data s =
     (if get_prop (get_prop message ''msg'') ''percentage'' \<noteq> JUndef
      then bind_err (ToNumber P (get_prop (get_prop message ''msg'') ''percentage'')) (\<lambda>p.
             Inr (s\<lparr>batteryPercentage := JStr (toFixed P (jmul p (Fin 100)) 1)\<rparr>))
      else Inr (s\<lparr>batteryPercentage := JStr ''N/A''\<rparr>))"
proof -
  from assms(2) have m: "member message ''op'' = Inr (JStr ''publish'')"
    by (cases message) auto
  from assms(2) have m2: "member message ''msg'' = Inr (get_prop message ''msg'')"
    by (cases message) auto
  from assms(4,5) have m3: "member (get_prop message ''msg'') ''percentage''
      = Inr (get_prop (get_prop message ''msg'') ''percentage'')"
    by (cases "get_prop message ''msg''") auto
  show ?thesis
    by (simp add: process_message_def assms(1,3) m m2 m3 bind_err_def ROS_CONFIG_topics_def
        del: toFixed.simps jmul.simps)
qed

lemma sample_parse_battery: "JSON_parse sample_platform battery_text = Some battery_tree"
  by (simp add: sample_platform_def sample_parse_def battery_text_def)

lemma sample_parse_battery_empty:
  "JSON_parse sample_platform battery_empty_text = Some battery_empty_tree"
  by (simp add: sample_platform_def sample_parse_def battery_text_def battery_empty_text_def)

text \<open>
  Claim C4, evaluated on the code. For an inbound frame with op "publish" on the battery
  topic whose \<open>msg.percentage\<close> is the number \<open>p\<close>, the battery field becomes the
  text that \<open>toFixed(1)\<close> gives for the double product \<open>p * 100\<close>: one decimal
  place, as the claim says (0.755 gives "75.5"; the product is rounded to a double
  first, so 0.5815 gives "58.1"). When \<open>msg.percentage\<close> is undefined the field
  becomes the string "N/A". That is not the value the rest of the code uses for an
  unknown battery: the initial state and \<open>disconnectFromRosbridge\<close> set null, the
  screen prints "N/A" for null only, and for the string it prints "N/A%".
\<close>

theorem battery_frames:
  assumes "JSON_parse P data = Some message"
    and "get_prop message ''op'' = JStr ''publish''"
    and "get_prop message ''topic'' = JStr ''/battery_status''"
    and "get_prop message ''msg'' = msg"
  shows "(get_prop msg ''percentage'' = JNum p \<longrightarrow>
            onmessage P data s =
              s\<lparr>batteryPercentage := JStr (toFixed P (jmul (Fin p) (Fin 100)) 1)\<rparr>)
       \<and> (msg \<noteq> JUndef \<and> msg \<noteq> JNull \<and> get_prop msg ''percentage'' = JUndef \<longrightarrow>
            onmessage P data s = s\<lparr>batteryPercentage := JStr ''N/A''\<rparr>
            \<and> battery_label P (batteryPercentage (onmessage P data s)) = ''N/A%'')
       \<and> batteryPercentage initial_app = JNull
       \<and> batteryPercentage (disconnectFromRosbridge s) = JNull
       \<and> battery_label P JNull = ''N/A''"
proof (intro conjI impI)
  assume h: "get_prop msg ''percentage'' = JNum p"
  then have obj: "msg \<noteq> JUndef" "msg \<noteq> JNull" by auto
  with h show "onmessage P data s =
      s\<lparr>batteryPercentage := JStr (toFixed P (jmul (Fin p) (Fin 100)) 1)\<rparr>"
    using process_battery [OF assms(1-3), of s] assms(4)
    by (simp add: onmessage_def bind_err_def del: toFixed.simps jmul.simps)
next
  assume h: "msg \<noteq> JUndef \<and> msg \<noteq> JNull \<and> get_prop msg ''percentage'' = JUndef"
  then show e: "onmessage P data s = s\<lparr>batteryPercentage := JStr ''N/A''\<rparr>"
    using process_battery [OF assms(1-3), of s] assms(4)
    by (simp add: onmessage_def)
  show "battery_label P (batteryPercentage (onmessage P data s)) = ''N/A%''"
    by (simp add: e battery_label_def)
next
  show "batteryPercentage initial_app = JNull"
    by (simp add: initial_app_def)
  show "batteryPercentage (disconnectFromRosbridge s) = JNull"
    by (simp add: disconnectFromRosbridge_def)
  show "battery_label P JNull = ''N/A''"
    by (simp add: battery_label_def)
qed

theorem battery_frames_witness:
  "JSON_parse sample_platform battery_empty_text = Some battery_empty_tree
   \<and> get_prop (get_prop battery_empty_tree ''msg'') ''percentage'' = JUndef
   \<and> batteryPercentage (onmessage sample_platform battery_empty_text connected_app) = JStr ''N/A''
   \<and> battery_label sample_platform
        (batteryPercentage (onmessage sample_platform battery_empty_text connected_app)) = ''N/A%''
   \<and> batteryPercentage (onmessage sample_platform battery_text connected_app) = JStr ''75.5''
   \<and> toFixed sample_platform (jmul (Fin (5237686366631887 / 2 ^ 53)) (Fin 100)) 1 = ''58.1''"
proof -
  have a: "onmessage sample_platform battery_empty_text connected_app
      = connected_app\<lparr>batteryPercentage := JStr ''N/A''\<rparr>
    \<and> battery_label sample_platform
        (batteryPercentage (onmessage sample_platform battery_empty_text connected_app)) = ''N/A%''"
    using battery_frames [OF sample_parse_battery_empty, where msg = "JObj []"
        and s = connected_app]
    by (simp add: battery_empty_tree_def battery_label_def)
  have b: "onmessage sample_platform battery_text connected_app
      = connected_app\<lparr>batteryPercentage := JStr ''75.5''\<rparr>"
    using battery_frames [OF sample_parse_battery, where p = "6800435437329449 / 2 ^ 53"
        and msg = "JObj [(''percentage'', JNum (6800435437329449 / 2 ^ 53))]"
        and s = connected_app]
    unfolding product_755 toFixed_755
    by (simp add: battery_tree_def)
  show ?thesis
    unfolding product_5815 toFixed_5815
    by (simp add: a b sample_parse_battery_empty battery_label_def)
      (simp add: battery_empty_tree_def)
qed

section \<open>Facts about the open socket\<close>

lemma open_socket_bound: "open_socket s = Some i \<Longrightarrow> i < length (sockets s)"
  by (auto simp add: open_socket_def split: option.splits if_splits)

lemma readyState_sent_update:
  "a < length xs \<Longrightarrow> readyState (xs[i := (xs ! i)\<lparr>sent := v\<rparr>] ! a) = readyState (xs ! a)"
  by (cases "a = i") simp_all

lemma open_socket_ws_send: "open_socket (ws_send i f s) = open_socket s"
  by (cases "ws_current s") (auto simp add: open_socket_def ws_send_def readyState_sent_update)

lemma open_socket_ids_made: "open_socket (s\<lparr>ids_made := n\<rparr>) = open_socket s"
  by (simp add: open_socket_def cong: option.case_cong)

lemma open_socket_lastError: "open_socket (s\<lparr>lastError := e\<rparr>) = open_socket s"
  by (simp add: open_socket_def cong: option.case_cong)

lemma open_socket_initial: "open_socket initial_app = None"
  by (simp add: open_socket_def initial_app_def)

section \<open>Calls while not connected\<close>

text \<open>
  Claim C2, as the code has it. When the ref holds no open socket, \<open>subscribeToTopic\<close>
  and \<open>unsubscribeFromTopic\<close> leave the whole state as it is (no frame is sent and no
  error is recorded), and \<open>publishMessage\<close> changes the last error only, to
  "Cannot send command: Not connected."; none of the three raises an exception (each is
  a total function on the state, with no error result).
\<close>

theorem not_connected_calls:
  assumes "open_socket s = None"
  shows "subscribeToTopic P topicName messageType throttleRate s = s
    \<and> unsubscribeFromTopic P topicName s = s
    \<and> publishMessage P topicName messageType messagePayload s
        = s\<lparr>lastError := Some ''Cannot send command: Not connected.''\<rparr>"
  using assms
  by (simp add: subscribeToTopic_def unsubscribeFromTopic_def publishMessage_def)

theorem not_connected_calls_witness:
  "open_socket initial_app = None
   \<and> sockets (publishMessage sample_platform (JStr ''/cmd_vel'') (JStr ''geometry_msgs/Twist'')
        (twistMsg 0.2 0) initial_app) = []
   \<and> lastError (publishMessage sample_platform (JStr ''/cmd_vel'') (JStr ''geometry_msgs/Twist'')
        (twistMsg 0.2 0) initial_app) = Some ''Cannot send command: Not connected.''
   \<and> unsubscribeFromTopic sample_platform (JStr ''/battery_status'') initial_app = initial_app"
  using not_connected_calls [OF open_socket_initial, where P = sample_platform
      and topicName = "JStr ''/cmd_vel''" and messageType = "JStr ''geometry_msgs/Twist''"
      and messagePayload = "twistMsg 0.2 0"]
    not_connected_calls [OF open_socket_initial, where P = sample_platform
      and topicName = "JStr ''/battery_status''"]
  by (simp add: open_socket_initial) (simp add: initial_app_def)

text \<open>
  The claim as written also wants a precondition error recorded by subscribe and
  unsubscribe: in the initial state neither records one.
\<close>

theorem subscribe_not_connected_counterexample:
  "open_socket initial_app = None
   \<and> lastError (subscribeToTopic sample_platform (JStr ''/battery_status'')
        (JStr ''sensor_msgs/BatteryState'') JUndef initial_app) = None
   \<and> lastError (unsubscribeFromTopic sample_platform (JStr ''/battery_status'') initial_app) = None"
  by (simp add: open_socket_initial subscribeToTopic_def unsubscribeFromTopic_def)
    (simp add: initial_app_def)

section \<open>Sending on the open socket\<close>

lemma connecting_app:
  "connectToRosbridge sample_platform initial_app =
     initial_app\<lparr>connectionStatus := ''Connecting to ws://192.168.1.100:9090...'',
       ws_current := Some 0,
       sockets := [\<lparr>ws_url = ''ws://192.168.1.100:9090'', readyState = CONNECTING, sent = []\<rparr>]\<rparr>"
  by (simp add: connectToRosbridge_def open_socket_initial sample_platform_def)
    (simp add: initial_app_def)

lemma subscribeToTopic_open:
  assumes "open_socket s = Some i"
  shows "subscribeToTopic P t ty JUndef s =
     s\<lparr>ids_made := Suc (ids_made s),
       sockets := (sockets s)[i := (sockets s ! i)\<lparr>sent := sent (sockets s ! i) @
         [JSON_stringify (JObj [(''op'', JStr ''subscribe''),
            (''id'', JStr (generateUniqueID P (ids_made s))),
            (''topic'', t), (''type'', ty), (''throttle_rate'', JNum 200)])]\<rparr>]\<rparr>"
  using assms by (simp add: subscribeToTopic_def ws_send_def)

lemma open_socket_sent_update:
  "open_socket (s\<lparr>ids_made := n, sockets := (sockets s)[i := (sockets s ! i)\<lparr>sent := v\<rparr>]\<rparr>)
     = open_socket s"
  by (cases "ws_current s") (auto simp add: open_socket_def readyState_sent_update)

lemma subscribeToTopics_open:
  assumes "open_socket s = Some i"
  shows "subscribeToTopics P s =
     s\<lparr>ids_made := Suc (Suc (Suc (ids_made s))),
       sockets := (sockets s)[i := (sockets s ! i)\<lparr>sent := sent (sockets s ! i) @
         [JObj [(''op'', JStr ''subscribe''), (''id'', JStr (generateUniqueID P (ids_made s))),
                (''topic'', JStr ''/battery_status''),
                (''type'', JStr ''sensor_msgs/BatteryState''), (''throttle_rate'', JNum 200)],
          JObj [(''op'', JStr ''subscribe''),
                (''id'', JStr (generateUniqueID P (Suc (ids_made s)))),
                (''throttle_rate'', JNum 200)],
          JObj [(''op'', JStr ''subscribe''),
                (''id'', JStr (generateUniqueID P (Suc (Suc (ids_made s))))),
                (''topic'', JStr ''/robot_status_app''),
                (''type'', JStr ''std_msgs/String''), (''throttle_rate'', JNum 200)]]\<rparr>]\<rparr>"
proof -
  have b: "i < length (sockets s)"
    using assms by (rule open_socket_bound)
  define s1 where "s1 = subscribeToTopic P (batteryStatus ROS_CONFIG_topics)
      (batteryState ROS_CONFIG_messageTypes) JUndef s"
  define s2 where "s2 = subscribeToTopic P (odometry_topic ROS_CONFIG_topics)
      (odometry_type ROS_CONFIG_messageTypes) JUndef s1"
  have e1: "s1 = s\<lparr>ids_made := Suc (ids_made s),
       sockets := (sockets s)[i := (sockets s ! i)\<lparr>sent := sent (sockets s ! i) @
         [JObj [(''op'', JStr ''subscribe''), (''id'', JStr (generateUniqueID P (ids_made s))),
                (''topic'', JStr ''/battery_status''),
                (''type'', JStr ''sensor_msgs/BatteryState''), (''throttle_rate'', JNum 200)]]\<rparr>]\<rparr>"
    unfolding s1_def subscribeToTopic_open [OF assms]
    by (simp add: ROS_CONFIG_topics_def ROS_CONFIG_messageTypes_def)
  have o1: "open_socket s1 = Some i"
    unfolding e1 open_socket_sent_update by (rule assms)
  have e2: "s2 = s\<lparr>ids_made := Suc (Suc (ids_made s)),
       sockets := (sockets s)[i := (sockets s ! i)\<lparr>sent := sent (sockets s ! i) @
         [JObj [(''op'', JStr ''subscribe''), (''id'', JStr (generateUniqueID P (ids_made s))),
                (''topic'', JStr ''/battery_status''),
                (''type'', JStr ''sensor_msgs/BatteryState''), (''throttle_rate'', JNum 200)],
          JObj [(''op'', JStr ''subscribe''),
                (''id'', JStr (generateUniqueID P (Suc (ids_made s)))),
                (''throttle_rate'', JNum 200)]]\<rparr>]\<rparr>"
    unfolding s2_def subscribeToTopic_open [OF o1]
    using b by (simp add: e1 ROS_CONFIG_topics_def ROS_CONFIG_messageTypes_def)
  have o2: "open_socket s2 = Some i"
    unfolding e2 open_socket_sent_update by (rule assms)
  have "subscribeToTopics P s = subscribeToTopic P (robotStatus ROS_CONFIG_topics)
      (stringMsg ROS_CONFIG_messageTypes) JUndef s2"
    by (simp add: subscribeToTopics_def s1_def s2_def)
  also have "\<dots> = s\<lparr>ids_made := Suc (Suc (Suc (ids_made s))),
       sockets := (sockets s)[i := (sockets s ! i)\<lparr>sent := sent (sockets s ! i) @
         [JObj [(''op'', JStr ''subscribe''), (''id'', JStr (generateUniqueID P (ids_made s))),
                (''topic'', JStr ''/battery_status''),
                (''type'', JStr ''sensor_msgs/BatteryState''), (''throttle_rate'', JNum 200)],
          JObj [(''op'', JStr ''subscribe''),
                (''id'', JStr (generateUniqueID P (Suc (ids_made s)))),
                (''throttle_rate'', JNum 200)],
          JObj [(''op'', JStr ''subscribe''),
                (''id'', JStr (generateUniqueID P (Suc (Suc (ids_made s))))),
                (''topic'', JStr ''/robot_status_app''),
                (''type'', JStr ''std_msgs/String''), (''throttle_rate'', JNum 200)]]\<rparr>]\<rparr>"
    unfolding subscribeToTopic_open [OF o2]
    using b by (simp add: e2 ROS_CONFIG_topics_def ROS_CONFIG_messageTypes_def)
  finally show ?thesis .
qed

lemma fire_open_held:
  assumes "ws_current s = Some i" and "i < length (sockets s)"
  shows "fire P i OpenEv s =
     s\<lparr>isConnected := True, connectionStatus := ''Connected to ROS Master via rosbridge'',
       ids_made := Suc (Suc (Suc (ids_made s))),
       sockets := (sockets s)[i := (sockets s ! i)\<lparr>readyState := OPEN,
         sent := sent (sockets s ! i) @
         [JObj [(''op'', JStr ''subscribe''), (''id'', JStr (generateUniqueID P (ids_made s))),
                (''topic'', JStr ''/battery_status''),
                (''type'', JStr ''sensor_msgs/BatteryState''), (''throttle_rate'', JNum 200)],
          JObj [(''op'', JStr ''subscribe''),
                (''id'', JStr (generateUniqueID P (Suc (ids_made s)))),
                (''throttle_rate'', JNum 200)],
          JObj [(''op'', JStr ''subscribe''),
                (''id'', JStr (generateUniqueID P (Suc (Suc (ids_made s))))),
                (''topic'', JStr ''/robot_status_app''),
                (''type'', JStr ''std_msgs/String''), (''throttle_rate'', JNum 200)]]\<rparr>]\<rparr>"
proof -
  let ?s' = "(set_readyState i OPEN s)\<lparr>isConnected := True,
      connectionStatus := ''Connected to ROS Master via rosbridge''\<rparr>"
  have o: "open_socket ?s' = Some i"
    using assms by (simp add: open_socket_def set_readyState_def)
  show ?thesis
    using assms(2)
    by (simp add: onopen_def subscribeToTopics_open [OF o]) (simp add: set_readyState_def)
qed

lemma sample_ids:
  "generateUniqueID sample_platform 0 = ''op_1700000000000_k0''"
  "generateUniqueID sample_platform (Suc 0) = ''op_1700000000000_k1''"
  "generateUniqueID sample_platform (Suc (Suc 0)) = ''op_1700000000000_k2''"
  "generateUniqueID sample_platform (Suc (Suc (Suc 0))) = ''op_1700000000000_k3''"
  "generateUniqueID sample_platform (Suc (Suc (Suc (Suc 0)))) = ''op_1700000000000_k4''"
  by (simp_all add: generateUniqueID_def sample_platform_def digits10.simps)

lemma connected_app_eq:
  "connected_app =
     initial_app\<lparr>isConnected := True,
       connectionStatus := ''Connected to ROS Master via rosbridge'',
       ws_current := Some 0,
       sockets := [\<lparr>ws_url = ''ws://192.168.1.100:9090'', readyState = OPEN, sent =
         [JObj [(''op'', JStr ''subscribe''), (''id'', JStr ''op_1700000000000_k0''),
                (''topic'', JStr ''/battery_status''), (''type'', JStr ''sensor_msgs/BatteryState''),
                (''throttle_rate'', JNum 200)],
          JObj [(''op'', JStr ''subscribe''), (''id'', JStr ''op_1700000000000_k1''),
                (''throttle_rate'', JNum 200)],
          JObj [(''op'', JStr ''subscribe''), (''id'', JStr ''op_1700000000000_k2''),
                (''topic'', JStr ''/robot_status_app''), (''type'', JStr ''std_msgs/String''),
                (''throttle_rate'', JNum 200)]]\<rparr>],
       ids_made := 3\<rparr>"
proof -
  let ?c = "connectToRosbridge sample_platform initial_app"
  have h: "ws_current ?c = Some 0" "0 < length (sockets ?c)"
    by (simp_all add: connecting_app)
  have n: "ids_made ?c = 0"
    by (simp add: connecting_app) (simp add: initial_app_def)
  have "connected_app = fire sample_platform 0 OpenEv ?c"
    by (simp only: connected_app_def)
  then show ?thesis
    unfolding fire_open_held [OF h] n sample_ids
    unfolding connecting_app
    by (simp add: initial_app_def numeral_3_eq_3)
qed

lemma open_socket_connected: "open_socket connected_app = Some 0"
  by (simp add: connected_app_eq open_socket_def initial_app_def)

lemma sendTwistCommand_open:
  assumes "open_socket s = Some i"
  shows "sendTwistCommand P l a s =
     ws_send i (expected_twist_frame (generateUniqueID P (ids_made s)) l a)
       (s\<lparr>ids_made := Suc (ids_made s)\<rparr>)"
  using assms
  by (simp add: sendTwistCommand_def publishMessage_def twistMsg_def expected_twist_frame_def
      ROS_CONFIG_topics_def ROS_CONFIG_messageTypes_def)

lemma sendTwistCommand_twice:
  assumes "open_socket s = Some i"
  shows "sockets (sendTwistCommand P l2 a2 (sendTwistCommand P l1 a1 s)) =
      (sockets s)[i := (sockets s ! i)\<lparr>sent := sent (sockets s ! i) @
          [expected_twist_frame (generateUniqueID P (ids_made s)) l1 a1,
           expected_twist_frame (generateUniqueID P (Suc (ids_made s))) l2 a2]\<rparr>]"
proof -
  let ?s1 = "sendTwistCommand P l1 a1 s"
  have b: "i < length (sockets s)"
    using assms by (rule open_socket_bound)
  have o1: "open_socket ?s1 = Some i"
    by (simp add: sendTwistCommand_open [OF assms] open_socket_ws_send open_socket_ids_made assms)
  have n1: "ids_made ?s1 = Suc (ids_made s)"
    by (simp add: sendTwistCommand_open [OF assms] ws_send_def)
  have "sockets (sendTwistCommand P l2 a2 ?s1) =
      (sockets ?s1)[i := (sockets ?s1 ! i)\<lparr>sent := sent (sockets ?s1 ! i) @
          [expected_twist_frame (generateUniqueID P (Suc (ids_made s))) l2 a2]\<rparr>]"
    by (simp add: sendTwistCommand_open [OF o1] ws_send_def n1)
  also have "\<dots> = (sockets s)[i := (sockets s ! i)\<lparr>sent := sent (sockets s ! i) @
          [expected_twist_frame (generateUniqueID P (ids_made s)) l1 a1,
           expected_twist_frame (generateUniqueID P (Suc (ids_made s))) l2 a2]\<rparr>]"
    using b by (simp add: sendTwistCommand_open [OF assms] ws_send_def)
  finally show ?thesis .
qed

section \<open>The subscriptions issued on open\<close>

text \<open>
  Claim C1, evaluated on the code. When the open event of the socket that the ref holds
  fires, exactly three subscribe frames are sent on it, each with a newly generated id
  and the default throttle rate 200. The first is for "/battery_status" and the third for
  "/robot_status_app"; the second, meant for odometry, carries neither a topic nor a
  type, because \<open>ROS_CONFIG.topics.odometry\<close> and
  \<open>ROS_CONFIG.messageTypes.odometry\<close> are undefined and \<open>JSON.stringify\<close> drops such
  properties. The claim expects topic "/odom" and type "nav_msgs/Odometry" there.
\<close>

theorem open_event_subscribes:
  assumes "ws_current s = Some i" and "i < length (sockets s)"
  shows "sent (sockets (fire P i OpenEv s) ! i) = sent (sockets s ! i) @
         [JObj [(''op'', JStr ''subscribe''), (''id'', JStr (generateUniqueID P (ids_made s))),
                (''topic'', JStr ''/battery_status''),
                (''type'', JStr ''sensor_msgs/BatteryState''), (''throttle_rate'', JNum 200)],
          JObj [(''op'', JStr ''subscribe''),
                (''id'', JStr (generateUniqueID P (Suc (ids_made s)))),
                (''throttle_rate'', JNum 200)],
          JObj [(''op'', JStr ''subscribe''),
                (''id'', JStr (generateUniqueID P (Suc (Suc (ids_made s))))),
                (''topic'', JStr ''/robot_status_app''),
                (''type'', JStr ''std_msgs/String''), (''throttle_rate'', JNum 200)]]"
  unfolding fire_open_held [OF assms] using assms(2) by simp

theorem open_event_subscribes_witness:
  "ws_current (connectToRosbridge sample_platform initial_app) = Some 0
   \<and> sent (sockets (fire sample_platform 0 OpenEv
        (connectToRosbridge sample_platform initial_app)) ! 0) =
         [JObj [(''op'', JStr ''subscribe''), (''id'', JStr ''op_1700000000000_k0''),
                (''topic'', JStr ''/battery_status''), (''type'', JStr ''sensor_msgs/BatteryState''),
                (''throttle_rate'', JNum 200)],
          JObj [(''op'', JStr ''subscribe''), (''id'', JStr ''op_1700000000000_k1''),
                (''throttle_rate'', JNum 200)],
          JObj [(''op'', JStr ''subscribe''), (''id'', JStr ''op_1700000000000_k2''),
                (''topic'', JStr ''/robot_status_app''), (''type'', JStr ''std_msgs/String''),
                (''throttle_rate'', JNum 200)]]"
proof -
  let ?c = "connectToRosbridge sample_platform initial_app"
  have h: "ws_current ?c = Some 0" "0 < length (sockets ?c)"
    by (simp_all add: connecting_app)
  have n: "ids_made ?c = 0" "sent (sockets ?c ! 0) = []"
    by (simp_all add: connecting_app) (simp add: initial_app_def)
  show ?thesis
    using open_event_subscribes [OF h, where P = sample_platform]
    by (simp add: h n sample_ids)
qed

section \<open>Velocity commands\<close>

text \<open>
  Claim C8. While the ref holds an open socket, \<open>sendTwistCommand l a\<close> sends one frame
  on it, the publish frame for "/cmd_vel" with payload
  \<open>{linear:{x:l,y:0,z:0}, angular:{x:0,y:0,z:a}}\<close>, and touches no other socket;
  \<open>handleEmergencyStop\<close> is \<open>sendTwistCommand 0 0\<close> followed by the alert; so
  \<open>sendTwistCommand 0.2 0\<close> and then \<open>handleEmergencyStop\<close> add exactly two publish
  frames, the second with \<open>linear.x = 0\<close> and \<open>angular.z = 0\<close>.
\<close>

theorem sendTwistCommand_frames:
  assumes "open_socket s = Some i"
  shows "sockets (sendTwistCommand P l a s) =
      (sockets s)[i := (sockets s ! i)\<lparr>sent := sent (sockets s ! i) @
          [expected_twist_frame (generateUniqueID P (ids_made s)) l a]\<rparr>]
    \<and> handleEmergencyStop P s =
        (sendTwistCommand P 0 0 s)\<lparr>alerts := alerts s @ [(''Emergency Stop'', ''Robot motion stopped!'')]\<rparr>
    \<and> sockets (handleEmergencyStop P (sendTwistCommand P 0.2 0 s)) =
      (sockets s)[i := (sockets s ! i)\<lparr>sent := sent (sockets s ! i) @
          [expected_twist_frame (generateUniqueID P (ids_made s)) 0.2 0,
           expected_twist_frame (generateUniqueID P (Suc (ids_made s))) 0 0]\<rparr>]"
proof (intro conjI)
  show "sockets (sendTwistCommand P l a s) =
      (sockets s)[i := (sockets s ! i)\<lparr>sent := sent (sockets s ! i) @
          [expected_twist_frame (generateUniqueID P (ids_made s)) l a]\<rparr>]"
    by (simp add: sendTwistCommand_open [OF assms] ws_send_def)
next
  have "alerts (sendTwistCommand P 0 0 s) = alerts s"
    by (simp add: sendTwistCommand_def publishMessage_def ws_send_def split: option.splits)
  then show "handleEmergencyStop P s =
        (sendTwistCommand P 0 0 s)\<lparr>alerts := alerts s @ [(''Emergency Stop'', ''Robot motion stopped!'')]\<rparr>"
    by (simp add: handleEmergencyStop_def Let_def)
next
  have "sockets (handleEmergencyStop P (sendTwistCommand P 0.2 0 s))
      = sockets (sendTwistCommand P 0 0 (sendTwistCommand P 0.2 0 s))"
    by (simp add: handleEmergencyStop_def Let_def)
  then show "sockets (handleEmergencyStop P (sendTwistCommand P 0.2 0 s)) =
      (sockets s)[i := (sockets s ! i)\<lparr>sent := sent (sockets s ! i) @
          [expected_twist_frame (generateUniqueID P (ids_made s)) 0.2 0,
           expected_twist_frame (generateUniqueID P (Suc (ids_made s))) 0 0]\<rparr>]"
    by (simp only: sendTwistCommand_twice [OF assms])
qed

theorem sendTwistCommand_frames_witness:
  "open_socket connected_app = Some 0
   \<and> sent (sockets (handleEmergencyStop sample_platform
        (sendTwistCommand sample_platform 0.2 0 connected_app)) ! 0) =
      sent (sockets connected_app ! 0) @
        [expected_twist_frame ''op_1700000000000_k3'' 0.2 0,
         expected_twist_frame ''op_1700000000000_k4'' 0 0]"
proof -
  have n: "ids_made connected_app = Suc (Suc (Suc 0))" "length (sockets connected_app) = Suc 0"
    by (simp_all add: connected_app_eq initial_app_def numeral_3_eq_3)
  show ?thesis
    using sendTwistCommand_frames [OF open_socket_connected, where P = sample_platform]
    by (simp add: open_socket_connected n sample_ids)
qed

section \<open>Connecting\<close>

text \<open>
  Claim C10. A call of \<open>connectToRosbridge\<close> that passes the already-connected guard
  clears the last error before it tries to create the socket: afterwards the last error
  is empty, or it is the error of this very attempt when the constructor threw, and the
  outcome does not depend on the error that was recorded before.
\<close>

theorem connect_clears_lastError:
  assumes "open_socket s = None"
  shows "lastError (connectToRosbridge P s) =
      (case WebSocket_throws P (rosbridgeUrl s) of
         None \<Rightarrow> None
       | Some msg \<Rightarrow> Some (''Connection Init Error: '' @ msg))
    \<and> connectToRosbridge P (s\<lparr>lastError := e\<rparr>) = connectToRosbridge P s"
  using assms
  by (simp add: connectToRosbridge_def open_socket_lastError split: option.splits)

theorem connect_clears_lastError_witness:
  "open_socket (initial_app\<lparr>lastError := Some ''WebSocket Error: Check console''\<rparr>) = None
   \<and> lastError (connectToRosbridge sample_platform
        (initial_app\<lparr>lastError := Some ''WebSocket Error: Check console''\<rparr>)) = None"
proof -
  let ?s = "initial_app\<lparr>lastError := Some ''WebSocket Error: Check console''\<rparr>"
  have o: "open_socket ?s = None"
    by (simp add: open_socket_lastError open_socket_initial)
  have "WebSocket_throws sample_platform (rosbridgeUrl ?s) = None"
    by (simp add: sample_platform_def)
  then show ?thesis
    using connect_clears_lastError [OF o, where P = sample_platform] o by simp
qed

text \<open>
  Claim C6, as the code has it. The guard of \<open>connectToRosbridge\<close> tests for an open
  socket only. When the ref holds an open socket, the call sets the status to
  "Already connected." and changes nothing else: no socket is created or closed, the
  ref stays, and no frame is sent. A socket that is still connecting is not open, so
  the guard does not apply to it: in every state where the ref holds no open socket,
  and the constructor does not throw, the call adds one socket in state CONNECTING
  after the existing ones, which it leaves as they are, and moves the ref to it.
\<close>

theorem connect_guard:
  "(open_socket s = Some i \<longrightarrow>
      connectToRosbridge P s = s\<lparr>connectionStatus := ''Already connected.''\<rparr>
      \<and> sockets (connectToRosbridge P s) = sockets s
      \<and> ws_current (connectToRosbridge P s) = ws_current s)
   \<and> (ws_current s = Some i \<and> i < length (sockets s)
        \<and> readyState (sockets s ! i) = CONNECTING \<longrightarrow> open_socket s = None)
   \<and> (open_socket s = None \<and> WebSocket_throws P (rosbridgeUrl s) = None \<longrightarrow>
      sockets (connectToRosbridge P s) =
        sockets s @ [\<lparr>ws_url = rosbridgeUrl s, readyState = CONNECTING, sent = []\<rparr>]
      \<and> ws_current (connectToRosbridge P s) = Some (length (sockets s)))"
  by (simp add: connectToRosbridge_def) (simp add: open_socket_def)

theorem connect_guard_witness:
  "open_socket connected_app = Some 0
   \<and> connectToRosbridge sample_platform connected_app
      = connected_app\<lparr>connectionStatus := ''Already connected.''\<rparr>
   \<and> sockets (connectToRosbridge sample_platform connected_app) = sockets connected_app
   \<and> open_socket (connectToRosbridge sample_platform initial_app) = None
   \<and> map readyState (sockets (connectToRosbridge sample_platform
         (connectToRosbridge sample_platform initial_app))) = [CONNECTING, CONNECTING]
   \<and> ws_current (connectToRosbridge sample_platform
         (connectToRosbridge sample_platform initial_app)) = Some 1"
proof -
  let ?c = "connectToRosbridge sample_platform initial_app"
  have c: "ws_current ?c = Some 0" "0 < length (sockets ?c)"
      "readyState (sockets ?c ! 0) = CONNECTING" "length (sockets ?c) = 1"
      "map readyState (sockets ?c) = [CONNECTING]"
    by (simp_all add: connecting_app)
  have u: "rosbridgeUrl ?c = rosbridgeUrl initial_app"
    by (simp add: connecting_app)
  have w: "WebSocket_throws sample_platform (rosbridgeUrl initial_app) = None"
    by (simp add: sample_platform_def)
  have o: "open_socket ?c = None"
    using connect_guard [where s = ?c and i = 0 and P = sample_platform] c by simp
  show ?thesis
    using connect_guard [where s = connected_app and i = 0 and P = sample_platform]
      connect_guard [where s = ?c and i = 0 and P = sample_platform]
    by (simp add: open_socket_connected o c u w)
qed

lemma connecting_twice:
  "connectToRosbridge sample_platform (connectToRosbridge sample_platform initial_app) =
     initial_app\<lparr>connectionStatus := ''Connecting to ws://192.168.1.100:9090...'',
       ws_current := Some 1,
       sockets := [\<lparr>ws_url = ''ws://192.168.1.100:9090'', readyState = CONNECTING, sent = []\<rparr>,
                   \<lparr>ws_url = ''ws://192.168.1.100:9090'', readyState = CONNECTING, sent = []\<rparr>]\<rparr>"
  unfolding connecting_app
  by (simp add: connectToRosbridge_def open_socket_def sample_platform_def initial_app_def)

text \<open>
  The claim as written covers a connection that is still connecting as well: there a
  second call creates a second socket and moves the ref to it, leaving two sockets that
  are both connecting.
\<close>

theorem connect_while_connecting_counterexample:
  "ws_current (connectToRosbridge sample_platform initial_app) = Some 0
   \<and> map readyState (sockets (connectToRosbridge sample_platform initial_app)) = [CONNECTING]
   \<and> ws_current (connectToRosbridge sample_platform
         (connectToRosbridge sample_platform initial_app)) = Some 1
   \<and> map readyState (sockets (connectToRosbridge sample_platform
         (connectToRosbridge sample_platform initial_app))) = [CONNECTING, CONNECTING]
   \<and> connectionStatus (connectToRosbridge sample_platform
         (connectToRosbridge sample_platform initial_app))
       = ''Connecting to ws://192.168.1.100:9090...''"
  unfolding connecting_twice unfolding connecting_app
  by (simp add: initial_app_def)

section \<open>Disconnecting\<close>

lemma ws_close_twice: "ws_close i (ws_close i s) = ws_close i s"
proof (cases "i < length (sockets s)")
  case True
  then show ?thesis by (simp add: ws_close_def)
next
  case False
  then have "(sockets s)[i := x] = sockets s" for x
    by (simp add: list_update_beyond)
  then have "ws_close i s = s"
    unfolding ws_close_def by simp
  then show ?thesis by simp
qed

lemma ws_close_reset:
  "ws_close k (r\<lparr>isConnected := a, connectionStatus := b, batteryPercentage := c,
      odometry := d, robotStatusText := e\<rparr>)
   = (ws_close k r)\<lparr>isConnected := a, connectionStatus := b, batteryPercentage := c,
      odometry := d, robotStatusText := e\<rparr>"
  by (simp add: ws_close_def)

lemma ws_current_ws_close: "ws_current (ws_close k s) = ws_current s"
  by (simp add: ws_close_def)

lemma disconnect_twice:
  "disconnectFromRosbridge (disconnectFromRosbridge s) = disconnectFromRosbridge s"
proof (cases "ws_current s")
  case None
  then show ?thesis
    by (simp add: disconnectFromRosbridge_def)
next
  case (Some k)
  then show ?thesis
    by (simp add: disconnectFromRosbridge_def ws_close_reset ws_current_ws_close ws_close_twice)
qed

text \<open>
  Claim C5, as the code has it. From every state, \<open>disconnectFromRosbridge\<close> sets the
  connection state to disconnected with status "Disconnected", resets the telemetry to
  its defaults (battery null, pose \<open>{x:0, y:0, theta:0}\<close>, status "N/A"), and calls
  \<open>close\<close> on the socket the ref holds, if any, touching no other socket; with no
  socket held it touches no socket at all; and calling it twice is the same as calling
  it once. It does not clear the ref: the ref is cleared when a close event is handled
  afterwards.
\<close>

theorem disconnect_resets:
  "isConnected (disconnectFromRosbridge s) = False
   \<and> connectionStatus (disconnectFromRosbridge s) = ''Disconnected''
   \<and> batteryPercentage (disconnectFromRosbridge s) = JNull
   \<and> odometry (disconnectFromRosbridge s) = \<lparr>pose_x = JNum 0, pose_y = JNum 0, pose_theta = JNum 0\<rparr>
   \<and> robotStatusText (disconnectFromRosbridge s) = JStr ''N/A''
   \<and> (ws_current s = Some i \<longrightarrow>
        sockets (disconnectFromRosbridge s) = (sockets s)[i := (sockets s ! i)\<lparr>readyState :=
          (if readyState (sockets s ! i) = CLOSED then CLOSED else CLOSING)\<rparr>])
   \<and> (ws_current s = None \<longrightarrow> sockets (disconnectFromRosbridge s) = sockets s)
   \<and> ws_current (disconnectFromRosbridge s) = ws_current s
   \<and> ws_current (fire P j (CloseEv ev) (disconnectFromRosbridge s)) = None
   \<and> disconnectFromRosbridge (disconnectFromRosbridge s) = disconnectFromRosbridge s"
proof (cases "ws_current s")
  case None
  then show ?thesis
    unfolding disconnect_twice
    by (simp add: disconnectFromRosbridge_def zero_pose_def onclose_def set_readyState_def)
next
  case (Some k)
  then show ?thesis
    unfolding disconnect_twice
    by (simp add: disconnectFromRosbridge_def zero_pose_def onclose_def set_readyState_def
        ws_close_def)
qed

theorem disconnect_resets_witness:
  "ws_current connected_app = Some 0
   \<and> map readyState (sockets (disconnectFromRosbridge connected_app)) = [CLOSING]
   \<and> batteryPercentage (disconnectFromRosbridge
        (onmessage sample_platform battery_text connected_app)) = JNull
   \<and> ws_current (fire sample_platform 0 (CloseEv (JObj [(''code'', JNum 1000)]))
        (disconnectFromRosbridge connected_app)) = None
   \<and> sockets (disconnectFromRosbridge initial_app) = []"
proof -
  have c: "ws_current connected_app = Some 0" "readyState (sockets connected_app ! 0) = OPEN"
    "length (sockets connected_app) = 1"
    by (simp_all add: connected_app_eq initial_app_def)
  have i: "ws_current initial_app = None" "sockets initial_app = []"
    by (simp_all add: initial_app_def)
  show ?thesis
    using disconnect_resets [where s = connected_app and i = 0 and j = 0
        and P = sample_platform and ev = "JObj [(''code'', JNum 1000)]"]
      disconnect_resets [where s = "onmessage sample_platform battery_text connected_app"]
      disconnect_resets [where s = initial_app]
    by (simp add: c i) (simp add: connected_app_eq initial_app_def)
qed

text \<open>
  The claim as written has the ref cleared by the call itself: after a disconnect of the
  connected state the ref still holds socket 0.
\<close>

theorem disconnect_keeps_ref_counterexample:
  "ws_current (disconnectFromRosbridge connected_app) = Some 0"
  by (simp add: disconnectFromRosbridge_def ws_close_def connected_app_eq initial_app_def)

section \<open>Events of a superseded socket\<close>

lemma subscribeToTopic_keeps:
  "isConnected (subscribeToTopic P t ty th s) = isConnected s
   \<and> connectionStatus (subscribeToTopic P t ty th s) = connectionStatus s"
  by (simp add: subscribeToTopic_def ws_send_def Let_def split: option.splits)

lemma subscribeToTopics_keeps:
  "isConnected (subscribeToTopics P s) = isConnected s
   \<and> connectionStatus (subscribeToTopics P s) = connectionStatus s"
  by (simp add: subscribeToTopics_def Let_def subscribeToTopic_keeps)

lemma open_socket_other_opened:
  assumes "open_socket s = Some i" and "j \<noteq> i"
  shows "open_socket ((set_readyState j OPEN s)\<lparr>isConnected := a, connectionStatus := b\<rparr>) = Some i"
proof -
  from assms(1) have c: "ws_current s = Some i" "i < length (sockets s)"
      "readyState (sockets s ! i) = OPEN"
    by (auto simp add: open_socket_def split: option.splits if_splits)
  with assms(2) show ?thesis
    by (simp add: open_socket_def set_readyState_def)
qed

lemma superseded_app_eq:
  "superseded_app =
     initial_app\<lparr>isConnected := True,
       connectionStatus := ''Connected to ROS Master via rosbridge'',
       ws_current := Some 1,
       sockets := [\<lparr>ws_url = ''ws://192.168.1.100:9090'', readyState = CONNECTING, sent = []\<rparr>,
         \<lparr>ws_url = ''ws://192.168.1.100:9090'', readyState = OPEN, sent =
         [JObj [(''op'', JStr ''subscribe''), (''id'', JStr ''op_1700000000000_k0''),
                (''topic'', JStr ''/battery_status''), (''type'', JStr ''sensor_msgs/BatteryState''),
                (''throttle_rate'', JNum 200)],
          JObj [(''op'', JStr ''subscribe''), (''id'', JStr ''op_1700000000000_k1''),
                (''throttle_rate'', JNum 200)],
          JObj [(''op'', JStr ''subscribe''), (''id'', JStr ''op_1700000000000_k2''),
                (''topic'', JStr ''/robot_status_app''), (''type'', JStr ''std_msgs/String''),
                (''throttle_rate'', JNum 200)]]\<rparr>],
       ids_made := 3\<rparr>"
proof -
  let ?c = "connectToRosbridge sample_platform (connectToRosbridge sample_platform initial_app)"
  have h: "ws_current ?c = Some 1" "1 < length (sockets ?c)"
    by (simp_all add: connecting_twice)
  have n: "ids_made ?c = 0"
    by (simp add: connecting_twice) (simp add: initial_app_def)
  have "superseded_app = fire sample_platform 1 OpenEv ?c"
    by (simp only: superseded_app_def)
  then show ?thesis
    unfolding fire_open_held [OF h] n sample_ids
    unfolding connecting_twice
    by (simp add: initial_app_def numeral_3_eq_3)
qed

text \<open>
  Claim C9, as the code has it. No handler compares the socket of its event with the
  socket the ref holds, so an event of a superseded socket \<open>j\<close> is applied like any
  other: an open event sets the state to connected and, when the ref holds another
  socket \<open>i\<close> that is open, sends the three subscribe frames on \<open>i\<close>; an error
  event sets the state to not connected and records the error; a close event clears
  the ref, whichever socket it holds.
\<close>

theorem late_events_applied:
  "isConnected (fire P j OpenEv s) = True
   \<and> connectionStatus (fire P j OpenEv s) = ''Connected to ROS Master via rosbridge''
   \<and> (open_socket s = Some i \<and> j \<noteq> i \<longrightarrow>
        sent (sockets (fire P j OpenEv s) ! i) = sent (sockets s ! i) @
         [JObj [(''op'', JStr ''subscribe''), (''id'', JStr (generateUniqueID P (ids_made s))),
                (''topic'', JStr ''/battery_status''),
                (''type'', JStr ''sensor_msgs/BatteryState''), (''throttle_rate'', JNum 200)],
          JObj [(''op'', JStr ''subscribe''),
                (''id'', JStr (generateUniqueID P (Suc (ids_made s)))),
                (''throttle_rate'', JNum 200)],
          JObj [(''op'', JStr ''subscribe''),
                (''id'', JStr (generateUniqueID P (Suc (Suc (ids_made s))))),
                (''topic'', JStr ''/robot_status_app''),
                (''type'', JStr ''std_msgs/String''), (''throttle_rate'', JNum 200)]])
   \<and> fire P j (ErrorEv err) s =
        s\<lparr>isConnected := False,
          connectionStatus := ''Connection Error: '' @
            ToString P (js_or (get_prop err ''message'') (JStr ''Unknown error'')),
          lastError := Some (''WebSocket Error: '' @
            ToString P (js_or (get_prop err ''message'') (JStr ''Check console'')))\<rparr>
   \<and> ws_current (fire P j (CloseEv ev) s) = None"
proof (intro conjI impI)
  show "isConnected (fire P j OpenEv s) = True"
    by (simp add: onopen_def subscribeToTopics_keeps)
  show "connectionStatus (fire P j OpenEv s) = ''Connected to ROS Master via rosbridge''"
    by (simp add: onopen_def subscribeToTopics_keeps)
  show "ws_current (fire P j (CloseEv ev) s) = None"
    by (simp add: onclose_def)
  show "fire P j (ErrorEv err) s =
        s\<lparr>isConnected := False,
          connectionStatus := ''Connection Error: '' @
            ToString P (js_or (get_prop err ''message'') (JStr ''Unknown error'')),
          lastError := Some (''WebSocket Error: '' @
            ToString P (js_or (get_prop err ''message'') (JStr ''Check console'')))\<rparr>"
    by (simp add: onerror_def)
next
  assume h: "open_socket s = Some i \<and> j \<noteq> i"
  let ?s' = "(set_readyState j OPEN s)\<lparr>isConnected := True,
      connectionStatus := ''Connected to ROS Master via rosbridge''\<rparr>"
  from h have o: "open_socket ?s' = Some i"
    by (simp add: open_socket_other_opened)
  from h have b: "i < length (sockets s)"
    by (simp add: open_socket_bound)
  have "fire P j OpenEv s = subscribeToTopics P ?s'"
    by (simp add: onopen_def)
  then show "sent (sockets (fire P j OpenEv s) ! i) = sent (sockets s ! i) @
         [JObj [(''op'', JStr ''subscribe''), (''id'', JStr (generateUniqueID P (ids_made s))),
                (''topic'', JStr ''/battery_status''),
                (''type'', JStr ''sensor_msgs/BatteryState''), (''throttle_rate'', JNum 200)],
          JObj [(''op'', JStr ''subscribe''),
                (''id'', JStr (generateUniqueID P (Suc (ids_made s)))),
                (''throttle_rate'', JNum 200)],
          JObj [(''op'', JStr ''subscribe''),
                (''id'', JStr (generateUniqueID P (Suc (Suc (ids_made s))))),
                (''topic'', JStr ''/robot_status_app''),
                (''type'', JStr ''std_msgs/String''), (''throttle_rate'', JNum 200)]]"
    unfolding subscribeToTopics_open [OF o]
    using h b by (simp add: set_readyState_def)
qed

theorem late_events_applied_witness:
  "open_socket superseded_app = Some 1
   \<and> length (sent (sockets superseded_app ! 1)) = 3
   \<and> length (sent (sockets (fire sample_platform 0 OpenEv superseded_app) ! 1)) = 6
   \<and> isConnected (fire sample_platform 0 OpenEv superseded_app)"
proof -
  have o: "open_socket superseded_app = Some (Suc 0)"
    by (simp add: superseded_app_eq open_socket_def initial_app_def)
  have l: "length (sent (sockets superseded_app ! Suc 0)) = 3"
    by (simp add: superseded_app_eq initial_app_def)
  show ?thesis
    using late_events_applied [where s = superseded_app and i = 1 and j = 0
        and P = sample_platform]
    by (simp add: o l del: fire.simps)
qed

text \<open>
  The claim as written has such events ignored: with socket 1 connected and held, an
  error event of the superseded socket 0 sets the state to not connected and records
  an error.
\<close>

theorem late_error_counterexample:
  "ws_current superseded_app = Some 1
   \<and> isConnected superseded_app = True
   \<and> lastError superseded_app = None
   \<and> isConnected (fire sample_platform 0 (ErrorEv (JObj [])) superseded_app) = False
   \<and> lastError (fire sample_platform 0 (ErrorEv (JObj [])) superseded_app)
       = Some ''WebSocket Error: Check console''"
  by (simp add: superseded_app_eq onerror_def js_or_def initial_app_def)

section \<open>Malformed inbound frames\<close>

lemma override_bind:
  "map_sum id (\<lambda>r. r\<lparr>lastError := e\<rparr>) (bind_err m f)
     = bind_err m (\<lambda>v. map_sum id (\<lambda>r. r\<lparr>lastError := e\<rparr>) (f v))"
  by (cases m) (simp_all add: bind_err_def)

lemma process_message_after_error:
  "map_sum id (\<lambda>r. r\<lparr>lastError := e\<rparr>) (process_message P data (s\<lparr>lastError := x\<rparr>))
     = map_sum id (\<lambda>r. r\<lparr>lastError := e\<rparr>) (process_message P data s)"
  by (simp add: process_message_def override_bind if_distrib [of "map_sum id (\<lambda>r. r\<lparr>lastError := e\<rparr>)"]
      split: option.splits cong: if_cong)

lemma onmessage_after_error:
  "(onmessage P data (s\<lparr>lastError := x\<rparr>))\<lparr>lastError := e\<rparr> = (onmessage P data s)\<lparr>lastError := e\<rparr>"
proof -
  have "(onmessage P data t)\<lparr>lastError := e\<rparr> =
      (case map_sum id (\<lambda>r. r\<lparr>lastError := e\<rparr>) (process_message P data t) of
         Inl u \<Rightarrow> t\<lparr>lastError := e\<rparr> | Inr r \<Rightarrow> r)" for t
    by (simp add: onmessage_def split: sum.splits)
  then show ?thesis
    by (simp add: process_message_after_error split: sum.splits)
qed

lemma sample_parse_odom: "JSON_parse sample_platform odom_text = Some odom_tree"
  by (simp add: sample_platform_def sample_parse_def battery_text_def battery_empty_text_def
      odom_text_def)

lemma sample_parse_garbage: "JSON_parse sample_platform ''{op:'' = None"
  by (simp add: sample_platform_def sample_parse_def battery_text_def battery_empty_text_def
      odom_text_def)

text \<open>
  Claim C7, evaluated on the code. A frame that is not valid JSON changes nothing but
  the last error, which becomes "Error processing message from ROS."; no exception
  leaves the handler, and the frame that follows is processed as if the malformed one
  had not come (the two outcomes agree in every field but, possibly, the last error).
  A publish frame on the odometry topic "/odom" is not decoded at all, whatever its
  \<open>msg\<close> holds: \<open>ROS_CONFIG.topics.odometry\<close> is undefined, so the frame matches no
  branch of the dispatcher and the state stays as it was, with no decode error
  recorded. The claim expects a decode error for such a frame when its nested fields
  are missing.
\<close>

theorem odom_frames_ignored:
  "(JSON_parse P data = None \<longrightarrow>
      onmessage P data s = s\<lparr>lastError := Some ''Error processing message from ROS.''\<rparr>)
   \<and> (onmessage P next_data (s\<lparr>lastError := Some ''Error processing message from ROS.''\<rparr>))
          \<lparr>lastError := e\<rparr>
       = (onmessage P next_data s)\<lparr>lastError := e\<rparr>
   \<and> (JSON_parse P data = Some message
       \<and> get_prop message ''op'' = JStr ''publish''
       \<and> get_prop message ''topic'' = JStr ''/odom''
       \<longrightarrow> onmessage P data s = s)"
proof (intro conjI impI)
  assume "JSON_parse P data = None"
  then show "onmessage P data s = s\<lparr>lastError := Some ''Error processing message from ROS.''\<rparr>"
    by (simp add: onmessage_def process_message_def)
next
  show "(onmessage P next_data (s\<lparr>lastError := Some ''Error processing message from ROS.''\<rparr>))
          \<lparr>lastError := e\<rparr>
       = (onmessage P next_data s)\<lparr>lastError := e\<rparr>"
    by (rule onmessage_after_error)
next
  assume h: "JSON_parse P data = Some message
       \<and> get_prop message ''op'' = JStr ''publish''
       \<and> get_prop message ''topic'' = JStr ''/odom''"
  then have m: "member message ''op'' = Inr (JStr ''publish'')"
    by (cases message) auto
  from h have "process_message P data s = Inr s"
    by (simp add: process_message_def m bind_err_def ROS_CONFIG_topics_def)
  then show "onmessage P data s = s"
    by (simp add: onmessage_def)
qed

theorem odom_frames_ignored_witness:
  "JSON_parse sample_platform odom_text = Some odom_tree
   \<and> get_prop odom_tree ''topic'' = JStr ''/odom''
   \<and> get_prop (get_prop odom_tree ''msg'') ''pose'' = JUndef
   \<and> lastError connected_app = None
   \<and> onmessage sample_platform odom_text connected_app = connected_app
   \<and> JSON_parse sample_platform ''{op:'' = None
   \<and> onmessage sample_platform ''{op:'' connected_app
       = connected_app\<lparr>lastError := Some ''Error processing message from ROS.''\<rparr>"
proof -
  have l: "lastError connected_app = None"
    by (simp add: connected_app_eq initial_app_def)
  have t: "get_prop odom_tree ''op'' = JStr ''publish''"
      "get_prop odom_tree ''topic'' = JStr ''/odom''"
      "get_prop (get_prop odom_tree ''msg'') ''pose'' = JUndef"
    by (simp_all add: odom_tree_def)
  show ?thesis
    using odom_frames_ignored [where P = sample_platform and data = odom_text
        and message = odom_tree and s = connected_app]
      odom_frames_ignored [where P = sample_platform and data = "''{op:''" and s = connected_app]
    by (simp add: sample_parse_odom sample_parse_garbage l t)
qed

end
